theory Spec2Isabelle
  imports Complex_Main "HOL-Library.Multiset" "HOL-Library.Product_Lexorder"
begin

section \<open>JavaScript values used by the SDK\<close>

text \<open>
  A value that a JavaScript function can throw. \<open>JsError name message\<close> is an instance
  of \<open>Error\<close> (or of a subclass, told apart by its \<open>name\<close>); \<open>JsNonError\<close> is any
  other thrown value. \<open>new Error(m)\<close> is \<open>JsError ''Error'' m\<close>.
\<close>

datatype js_thrown =
  JsError (err_name: string) (err_message: string)
| JsNonError string

definition new_Error :: "string \<Rightarrow> js_thrown" where
  "new_Error m = JsError ''Error'' m"

text \<open>Division of two \<open>bigint\<close>s truncates toward zero.\<close>

definition bigint_div :: "int \<Rightarrow> int \<Rightarrow> int" where
  "bigint_div a b = sgn a * sgn b * (\<bar>a\<bar> div \<bar>b\<bar>)"

section \<open>Slippage arithmetic (trading/slippage.ts)\<close>

text \<open>
  \<open>slippagePercent\<close> is a JavaScript number; it is modelled by the real number a finite
  double denotes. The product \<open>slippagePercent * 100\<close> is rounded to a double by the
  machine: the rounding function is the parameter \<open>fl\<close>.
\<close>

definition calculateMinAmountOut :: "(real \<Rightarrow> real) \<Rightarrow> int \<Rightarrow> real \<Rightarrow> js_thrown + int" where
  "calculateMinAmountOut fl amountOut slippagePercent =
     (if slippagePercent < 0 \<or> slippagePercent \<ge> 100
      then Inl (new_Error ''Slippage percent must be between 0 and 100 (exclusive)'')
      else
        let slippageBp = \<lfloor>fl (slippagePercent * 100)\<rfloor>;
            remainingBp = 10000 - slippageBp
        in Inr (bigint_div (amountOut * remainingBp) 10000))"

definition calculateMaxAmountIn :: "(real \<Rightarrow> real) \<Rightarrow> int \<Rightarrow> real \<Rightarrow> js_thrown + int" where
  "calculateMaxAmountIn fl amountIn slippagePercent =
     (if slippagePercent < 0 \<or> slippagePercent \<ge> 100
      then Inl (new_Error ''Slippage percent must be between 0 and 100 (exclusive)'')
      else
        let slippageBp = \<lfloor>fl (slippagePercent * 100)\<rfloor>;
            totalBp = 10000 + slippageBp
        in Inr (bigint_div (amountIn * totalBp) 10000))"

text \<open>
  What is assumed of the rounding of a product to a double: it is monotone and leaves
  the two doubles \<open>0\<close> and \<open>10000\<close> as they are.
\<close>

definition rounding_ok :: "(real \<Rightarrow> real) \<Rightarrow> bool" where
  "rounding_ok fl = (mono fl \<and> fl 0 = 0 \<and> fl 10000 = 10000)"

text \<open>
  \<open>String.prototype.toLowerCase\<close> on the ASCII strings the SDK handles (hex addresses),
  and the \<open><\<close> of two strings (by code unit, a proper prefix first).
\<close>

definition lower_char :: "char \<Rightarrow> char" where
  "lower_char c =
     (let n = (of_char c :: nat) in if 65 \<le> n \<and> n \<le> 90 then char_of (n + 32) else c)"

definition toLowerCase :: "string \<Rightarrow> string" where
  "toLowerCase s = map lower_char s"

fun js_string_less :: "string \<Rightarrow> string \<Rightarrow> bool" where
  "js_string_less [] [] = False"
| "js_string_less [] (d # t) = True"
| "js_string_less (c # s) [] = False"
| "js_string_less (c # s) (d # t) =
     (if (of_char c :: nat) < of_char d then True
      else if (of_char d :: nat) < of_char c then False
      else js_string_less s t)"

section \<open>Chronological order (stream/curve/parser.ts, stream/dex/parser.ts)\<close>

text \<open>
  \<open>sortEventsChronologically\<close> accepts any \<open>T extends {blockNumber, transactionIndex,
  logIndex}\<close>: an extensible record.
\<close>

record ordering_keys =
  blockNumber :: int
  transactionIndex :: int
  logIndex :: int

text \<open>The comparator passed to \<open>events.sort\<close>.\<close>

definition compareEvents :: "'a ordering_keys_scheme \<Rightarrow> 'a ordering_keys_scheme \<Rightarrow> int" where
  "compareEvents a b =
     (if blockNumber a \<noteq> blockNumber b then blockNumber a - blockNumber b
      else if transactionIndex a \<noteq> transactionIndex b
           then transactionIndex a - transactionIndex b
      else logIndex a - logIndex b)"

text \<open>
  \<open>Array.prototype.sort(cmp)\<close> of the language runtime: a stable sort (ECMAScript 2019),
  here by insertion, an element going in front of the first one it does not exceed.
\<close>

fun array_insert :: "('a \<Rightarrow> 'a \<Rightarrow> int) \<Rightarrow> 'a \<Rightarrow> 'a list \<Rightarrow> 'a list" where
  "array_insert cmp x [] = [x]"
| "array_insert cmp x (y # ys) =
     (if cmp x y \<le> 0 then x # y # ys else y # array_insert cmp x ys)"

definition array_sort :: "('a \<Rightarrow> 'a \<Rightarrow> int) \<Rightarrow> 'a list \<Rightarrow> 'a list" where
  "array_sort cmp xs = foldr (array_insert cmp) xs []"

text \<open>The contents of the array after \<open>sortEventsChronologically\<close>.\<close>

definition sortEventsChronologically :: "'a ordering_keys_scheme list \<Rightarrow> 'a ordering_keys_scheme list" where
  "sortEventsChronologically events = array_sort compareEvents events"

text \<open>
  The same function on a store of array objects: \<open>events.sort\<close> rewrites the array its
  argument refers to and returns that reference.
\<close>

type_synonym array_ref = nat

type_synonym 'a array_store = "array_ref \<Rightarrow> 'a list"

definition sortEventsChronologically_store ::
  "array_ref \<Rightarrow> 'a ordering_keys_scheme array_store
     \<Rightarrow> array_ref \<times> 'a ordering_keys_scheme array_store" where
  "sortEventsChronologically_store events store =
     (events, store(events := array_sort compareEvents (store events)))"

text \<open>The lexicographic order on \<open>(blockNumber, transactionIndex, logIndex)\<close>.\<close>

definition chrono_le :: "'a ordering_keys_scheme \<Rightarrow> 'a ordering_keys_scheme \<Rightarrow> bool" where
  "chrono_le a b =
     (blockNumber a < blockNumber b
      \<or> (blockNumber a = blockNumber b
          \<and> (transactionIndex a < transactionIndex b
              \<or> (transactionIndex a = transactionIndex b \<and> logIndex a \<le> logIndex b))))"

definition eventKey :: "'a ordering_keys_scheme \<Rightarrow> int \<times> int \<times> int" where
  "eventKey e = (blockNumber e, transactionIndex e, logIndex e)"

section \<open>Bonding curve events and their parser (stream/curve/parser.ts)\<close>

text \<open>
  What viem's \<open>parseEventLogs\<close> decodes from a log against \<open>CURVE_EVENT_ABIS\<close>: the event
  name with its arguments.
\<close>

datatype curve_args =
  CurveCreate (arg_creator: string) (arg_token: string) (arg_pool: string) (arg_name: string)
    (arg_symbol: string) (arg_tokenURI: string) (arg_virtualMon: int) (arg_virtualToken: int)
    (arg_targetTokenAmount: int)
| CurveBuy (arg_sender: string) (arg_token: string) (arg_amountIn: int) (arg_amountOut: int)
| CurveSell (arg_sender: string) (arg_token: string) (arg_amountIn: int) (arg_amountOut: int)
| CurveSync (arg_token: string) (arg_realMonReserve: int) (arg_realTokenReserve: int)
    (arg_virtualMonReserve: int) (arg_virtualTokenReserve: int)
| CurveTokenLocked (arg_token: string)
| CurveTokenListed (arg_token: string) (arg_pool: string)

text \<open>
  A raw log. \<open>log_parsed\<close> is the outcome of \<open>parseEventLogs\<close> on it: \<open>Inl\<close> when the
  decoder throws, \<open>Inr None\<close> when no event of the ABI matches.
\<close>

record raw_log =
  log_blockNumber :: int
  log_transactionHash :: string
  log_transactionIndex :: int
  log_logIndex :: int
  log_address :: string
  log_parsed :: "js_thrown + curve_args option"

record curve_event = ordering_keys +
  transactionHash :: string
  address :: string
  token :: string
  timestamp :: "int option"
  event_type :: string
  event_args :: curve_args

definition baseEvent :: "raw_log \<Rightarrow> curve_args \<Rightarrow> int option \<Rightarrow> string \<Rightarrow> curve_event" where
  "baseEvent lg args ts ty =
     \<lparr> blockNumber = log_blockNumber lg,
       transactionIndex = log_transactionIndex lg,
       logIndex = log_logIndex lg,
       transactionHash = log_transactionHash lg,
       address = log_address lg,
       token = arg_token args,
       timestamp = ts,
       event_type = ty,
       event_args = args \<rparr>"

definition parseBondingCurveEvent :: "raw_log \<Rightarrow> int option \<Rightarrow> curve_event option" where
  "parseBondingCurveEvent lg ts =
     (case log_parsed lg of
        Inl error \<Rightarrow> None
      | Inr None \<Rightarrow> None
      | Inr (Some parsed) \<Rightarrow>
          (case parsed of
             CurveCreate _ _ _ _ _ _ _ _ _ \<Rightarrow> Some (baseEvent lg parsed ts ''CurveCreate'')
           | CurveBuy _ _ _ _ \<Rightarrow> Some (baseEvent lg parsed ts ''CurveBuy'')
           | CurveSell _ _ _ _ \<Rightarrow> Some (baseEvent lg parsed ts ''CurveSell'')
           | CurveSync _ _ _ _ _ \<Rightarrow> Some (baseEvent lg parsed ts ''CurveSync'')
           | CurveTokenLocked _ \<Rightarrow> Some (baseEvent lg parsed ts ''CurveTokenLocked'')
           | CurveTokenListed _ _ \<Rightarrow> Some (baseEvent lg parsed ts ''CurveListed'')))"

section \<open>Historical indexer (stream/curve/indexer.ts)\<close>

text \<open>
  Modelled from the spec: the chain RPC collaborator \<open>getLogs(address, fromBlock, toBlock)\<close>,
  a reliable point API. The chain gives the logs of each block; a range query returns the
  logs of its blocks in chain order, and no log for an empty range.
\<close>

definition getLogs :: "(int \<Rightarrow> raw_log list) \<Rightarrow> int \<Rightarrow> int \<Rightarrow> raw_log list" where
  "getLogs chain fromBlock toBlock = concat (map chain [fromBlock..toBlock])"

text \<open>
  The loop of \<open>processLogs\<close>: \<open>eventTypes\<close> and \<open>tokenFilter\<close> are optional arguments
  (\<open>None\<close> is \<open>undefined\<close>); \<open>events\<close> is the array being filled.
\<close>

fun processLogs_loop ::
  "string list option \<Rightarrow> string list option \<Rightarrow> raw_log list \<Rightarrow> curve_event list
     \<Rightarrow> curve_event list" where
  "processLogs_loop eventTypes tokenFilter [] events = events"
| "processLogs_loop eventTypes tokenFilter (lg # logs) events =
     (case parseBondingCurveEvent lg None of
        None \<Rightarrow> processLogs_loop eventTypes tokenFilter logs events
      | Some event \<Rightarrow>
          if (case eventTypes of None \<Rightarrow> False
              | Some ts \<Rightarrow> event_type event \<notin> set ts)
          then processLogs_loop eventTypes tokenFilter logs events
          else if (case tokenFilter of None \<Rightarrow> False
                   | Some ts \<Rightarrow> toLowerCase (token event) \<notin> set (map toLowerCase ts))
          then processLogs_loop eventTypes tokenFilter logs events
          else processLogs_loop eventTypes tokenFilter logs (events @ [event]))"

definition processLogs ::
  "raw_log list \<Rightarrow> string list option \<Rightarrow> string list option \<Rightarrow> curve_event list" where
  "processLogs logs eventTypes tokenFilter =
     sortEventsChronologically (processLogs_loop eventTypes tokenFilter logs [])"

definition fetchEvents ::
  "(int \<Rightarrow> raw_log list) \<Rightarrow> int \<Rightarrow> int \<Rightarrow> string list option \<Rightarrow> string list option
     \<Rightarrow> curve_event list" where
  "fetchEvents chain fromBlock toBlock eventTypes tokenFilter =
     processLogs (getLogs chain fromBlock toBlock) eventTypes tokenFilter"

text \<open>
  The \<open>while\<close> loop of \<open>fetchAllEvents\<close>. It need not end (\<open>batchSize = 0\<close>), so not
  returning is the value \<open>None\<close>.
\<close>

partial_function (option) fetchAllEvents_loop ::
  "(int \<Rightarrow> raw_log list) \<Rightarrow> int \<Rightarrow> int \<Rightarrow> string list option \<Rightarrow> string list option
     \<Rightarrow> int \<Rightarrow> curve_event list \<Rightarrow> curve_event list option" where
  "fetchAllEvents_loop chain targetBlock batchSize eventTypes tokenFilter currentBlock allEvents =
     (if currentBlock \<le> targetBlock then
        (let toBlock = min (currentBlock + batchSize - 1) targetBlock;
             events = fetchEvents chain currentBlock toBlock eventTypes tokenFilter
         in if toBlock \<ge> targetBlock then Some (allEvents @ events)
            else fetchAllEvents_loop chain targetBlock batchSize eventTypes tokenFilter
                   (toBlock + 1) (allEvents @ events))
      else Some allEvents)"

declare fetchAllEvents_loop.simps [code]

text \<open>\<open>head\<close> is what \<open>getBlockNumber()\<close> answers, read once before the loop.\<close>

definition fetchAllEvents ::
  "(int \<Rightarrow> raw_log list) \<Rightarrow> int \<Rightarrow> int \<Rightarrow> int \<Rightarrow> string list option \<Rightarrow> string list option
     \<Rightarrow> curve_event list option" where
  "fetchAllEvents chain head startBlock batchSize eventTypes tokenFilter =
     (let targetBlock = head in
      map_option sortEventsChronologically
        (fetchAllEvents_loop chain targetBlock batchSize eventTypes tokenFilter startBlock []))"

section \<open>Router calls and gas estimation (trading/gas.ts)\<close>

text \<open>The \<open>contractParams\<close> objects handed to the router functions.\<close>

record buy_args =
  buy_amountOutMin :: int
  buy_token :: string
  buy_to :: string
  buy_deadline :: int

record sell_args =
  sell_amountIn :: int
  sell_amountOutMin :: int
  sell_token :: string
  sell_to :: string
  sell_deadline :: int

record sellPermit_args =
  permit_amountIn :: int
  permit_amountOutMin :: int
  permit_amountAllowance :: int
  permit_token :: string
  permit_to :: string
  permit_deadline :: int
  permit_v :: int
  permit_r :: string
  permit_s :: string

text \<open>The argument of \<open>encodeFunctionData\<close>: the function name with its argument.\<close>

datatype router_call =
  BuyCall buy_args
| SellCall sell_args
| SellPermitCall sellPermit_args

text \<open>The request of \<open>publicClient.estimateGas\<close>; \<open>req_value\<close> is absent for the sells.\<close>

record estimate_request =
  req_to :: string
  req_account :: string
  req_value :: "int option"
  req_data :: string

text \<open>\<open>error instanceof Error ? error.message : 'Unknown error'\<close>\<close>

definition message_or_unknown :: "js_thrown \<Rightarrow> string" where
  "message_or_unknown error =
     (case error of JsError n m \<Rightarrow> m | JsNonError v \<Rightarrow> ''Unknown error'')"

text \<open>
  In the three estimators \<open>encode\<close> is viem's \<open>encodeFunctionData\<close> (called outside the
  \<open>try\<close>) and \<open>estimate\<close> is the network call \<open>publicClient.estimateGas\<close>.
\<close>

definition estimateBuyGas ::
  "(router_call \<Rightarrow> js_thrown + string) \<Rightarrow> (estimate_request \<Rightarrow> js_thrown + int)
     \<Rightarrow> string \<Rightarrow> string \<Rightarrow> int \<Rightarrow> int \<Rightarrow> string \<Rightarrow> int \<Rightarrow> js_thrown + int" where
  "estimateBuyGas encode estimate routerAddress tok amountIn amountOutMin to deadline =
     (let contractParams =
            \<lparr> buy_amountOutMin = amountOutMin, buy_token = tok, buy_to = to,
              buy_deadline = deadline \<rparr>
      in case encode (BuyCall contractParams) of
           Inl thrown \<Rightarrow> Inl thrown
         | Inr callData \<Rightarrow>
             (case estimate \<lparr> req_to = routerAddress, req_account = to,
                               req_value = Some amountIn, req_data = callData \<rparr> of
                Inr gas \<Rightarrow> Inr gas
              | Inl error \<Rightarrow>
                  Inl (new_Error (''Gas estimation failed for buy operation: ''
                                  @ message_or_unknown error))))"

definition estimateSellGas ::
  "(router_call \<Rightarrow> js_thrown + string) \<Rightarrow> (estimate_request \<Rightarrow> js_thrown + int)
     \<Rightarrow> string \<Rightarrow> string \<Rightarrow> int \<Rightarrow> int \<Rightarrow> string \<Rightarrow> int \<Rightarrow> js_thrown + int" where
  "estimateSellGas encode estimate routerAddress tok amountIn amountOutMin to deadline =
     (let contractParams =
            \<lparr> sell_amountIn = amountIn, sell_amountOutMin = amountOutMin, sell_token = tok,
              sell_to = to, sell_deadline = deadline \<rparr>
      in case encode (SellCall contractParams) of
           Inl thrown \<Rightarrow> Inl thrown
         | Inr callData \<Rightarrow>
             (case estimate \<lparr> req_to = routerAddress, req_account = to,
                               req_value = None, req_data = callData \<rparr> of
                Inr gas \<Rightarrow> Inr gas
              | Inl error \<Rightarrow>
                  Inl (new_Error (''Gas estimation failed for sell operation: ''
                                  @ message_or_unknown error))))"

definition estimateSellPermitGas ::
  "(router_call \<Rightarrow> js_thrown + string) \<Rightarrow> (estimate_request \<Rightarrow> js_thrown + int)
     \<Rightarrow> string \<Rightarrow> string \<Rightarrow> int \<Rightarrow> int \<Rightarrow> int \<Rightarrow> string \<Rightarrow> int \<Rightarrow> int \<Rightarrow> string \<Rightarrow> string
     \<Rightarrow> js_thrown + int" where
  "estimateSellPermitGas encode estimate routerAddress tok amountIn amountOutMin amountAllowance
       to deadline v r s =
     (let contractParams =
            \<lparr> permit_amountIn = amountIn, permit_amountOutMin = amountOutMin,
              permit_amountAllowance = amountAllowance, permit_token = tok, permit_to = to,
              permit_deadline = deadline, permit_v = v, permit_r = r, permit_s = s \<rparr>
      in case encode (SellPermitCall contractParams) of
           Inl thrown \<Rightarrow> Inl thrown
         | Inr callData \<Rightarrow>
             (case estimate \<lparr> req_to = routerAddress, req_account = to,
                               req_value = None, req_data = callData \<rparr> of
                Inr gas \<Rightarrow> Inr gas
              | Inl error \<Rightarrow>
                  Inl (new_Error (''Gas estimation failed for sell permit operation: ''
                                  @ message_or_unknown error))))"

text \<open>\<open>GasEstimationParams\<close>: the union tagged by \<open>type\<close>.\<close>

datatype GasEstimationParams =
  Buy (gp_token: string) (gp_amountIn: int) (gp_amountOutMin: int) (gp_to: string)
    (gp_deadline: int)
| Sell (gp_token: string) (gp_amountIn: int) (gp_amountOutMin: int) (gp_to: string)
    (gp_deadline: int)
| SellPermit (gp_token: string) (gp_amountIn: int) (gp_amountOutMin: int)
    (gp_amountAllowance: int) (gp_to: string) (gp_deadline: int) (gp_v: int) (gp_r: string)
    (gp_s: string)

fun estimateGas ::
  "(router_call \<Rightarrow> js_thrown + string) \<Rightarrow> (estimate_request \<Rightarrow> js_thrown + int)
     \<Rightarrow> string \<Rightarrow> GasEstimationParams \<Rightarrow> js_thrown + int" where
  "estimateGas encode estimate routerAddress (Buy tok amountIn amountOutMin to deadline) =
     estimateBuyGas encode estimate routerAddress tok amountIn amountOutMin to deadline"
| "estimateGas encode estimate routerAddress (Sell tok amountIn amountOutMin to deadline) =
     estimateSellGas encode estimate routerAddress tok amountIn amountOutMin to deadline"
| "estimateGas encode estimate routerAddress
       (SellPermit tok amountIn amountOutMin amountAllowance to deadline v r s) =
     estimateSellPermitGas encode estimate routerAddress tok amountIn amountOutMin
       amountAllowance to deadline v r s"

section \<open>Trade executor (trading/trade.ts)\<close>

text \<open>
  \<open>BuyParams\<close>, \<open>SellParams\<close> and \<open>SellPermitParams extends SellParams\<close>. An optional
  field, and the \<open>deadline\<close> a caller left unset, is \<open>None\<close>.
\<close>

record BuyParams =
  bp_token :: string
  bp_to :: string
  bp_amountIn :: int
  bp_amountOutMin :: int
  bp_deadline :: "int option"
  bp_gasLimit :: "int option"
  bp_gasPrice :: "int option"
  bp_nonce :: "int option"

record SellParams =
  sp_token :: string
  sp_to :: string
  sp_amountIn :: int
  sp_amountOutMin :: int
  sp_deadline :: "int option"
  sp_gasLimit :: "int option"
  sp_gasPrice :: "int option"
  sp_nonce :: "int option"

record SellPermitParams = SellParams +
  sp_amountAllowance :: int
  sp_v :: int
  sp_r :: string
  sp_s :: string

text \<open>The request of \<open>walletClient.sendTransaction\<close> (account and chain are fixed).\<close>

record tx_request =
  tx_to :: string
  tx_data :: string
  tx_value :: "int option"
  tx_gas :: "int option"
  tx_gasPrice :: "int option"
  tx_nonce :: "int option"

text \<open>
  \<open>x ? BigInt(x) : BigInt(Math.floor(Date.now() / 1000) + 3600)\<close>: an unset deadline
  and the number 0 are falsy. \<open>nowMs\<close> is what \<open>Date.now()\<close> answers.
\<close>

definition deadline_or_default :: "int option \<Rightarrow> int \<Rightarrow> int" where
  "deadline_or_default deadline nowMs =
     (case deadline of
        Some d \<Rightarrow> if d \<noteq> 0 then d else nowMs div 1000 + 3600
      | None \<Rightarrow> nowMs div 1000 + 3600)"

definition buyDataParams :: "int \<Rightarrow> BuyParams \<Rightarrow> buy_args" where
  "buyDataParams nowMs params =
     \<lparr> buy_amountOutMin = bp_amountOutMin params,
       buy_token = bp_token params,
       buy_to = bp_to params,
       buy_deadline = deadline_or_default (bp_deadline params) nowMs \<rparr>"

definition buy ::
  "(router_call \<Rightarrow> js_thrown + string) \<Rightarrow> (tx_request \<Rightarrow> js_thrown + string)
     \<Rightarrow> (string \<Rightarrow> js_thrown + string) \<Rightarrow> int \<Rightarrow> BuyParams \<Rightarrow> string
     \<Rightarrow> js_thrown + string" where
  "buy encode sendTransaction waitForTransactionReceipt nowMs params router =
     (case encode (BuyCall (buyDataParams nowMs params)) of
        Inl thrown \<Rightarrow> Inl thrown
      | Inr callData \<Rightarrow>
          (case sendTransaction
                  \<lparr> tx_to = router, tx_data = callData, tx_value = Some (bp_amountIn params),
                    tx_gas = bp_gasLimit params, tx_gasPrice = bp_gasPrice params,
                    tx_nonce = bp_nonce params \<rparr> of
             Inl thrown \<Rightarrow> Inl thrown
           | Inr tx \<Rightarrow>
               (case waitForTransactionReceipt tx of
                  Inl thrown \<Rightarrow> Inl thrown
                | Inr receipt_transactionHash \<Rightarrow> Inr receipt_transactionHash)))"

definition sellDataParams :: "int \<Rightarrow> 'a SellParams_scheme \<Rightarrow> sell_args" where
  "sellDataParams nowMs params =
     \<lparr> sell_amountIn = sp_amountIn params,
       sell_amountOutMin = sp_amountOutMin params,
       sell_token = sp_token params,
       sell_to = sp_to params,
       sell_deadline = deadline_or_default (sp_deadline params) nowMs \<rparr>"

definition sell ::
  "(router_call \<Rightarrow> js_thrown + string) \<Rightarrow> (tx_request \<Rightarrow> js_thrown + string)
     \<Rightarrow> (string \<Rightarrow> js_thrown + string) \<Rightarrow> int \<Rightarrow> 'a SellParams_scheme \<Rightarrow> string
     \<Rightarrow> js_thrown + string" where
  "sell encode sendTransaction waitForTransactionReceipt nowMs params router =
     (case encode (SellCall (sellDataParams nowMs params)) of
        Inl thrown \<Rightarrow> Inl thrown
      | Inr sellData \<Rightarrow>
          (case sendTransaction
                  \<lparr> tx_to = router, tx_data = sellData, tx_value = None,
                    tx_gas = sp_gasLimit params, tx_gasPrice = sp_gasPrice params,
                    tx_nonce = sp_nonce params \<rparr> of
             Inl thrown \<Rightarrow> Inl thrown
           | Inr tx \<Rightarrow>
               (case waitForTransactionReceipt tx of
                  Inl thrown \<Rightarrow> Inl thrown
                | Inr receipt_transactionHash \<Rightarrow> Inr receipt_transactionHash)))"

text \<open>
  \<open>sellPermit\<close> reads no clock. \<open>BigInt(params.deadline)\<close> of an unset deadline throws
  a \<open>TypeError\<close> while the parameter object is built.
\<close>

definition sellPermitDataParams :: "SellPermitParams \<Rightarrow> js_thrown + sellPermit_args" where
  "sellPermitDataParams params =
     (case sp_deadline params of
        None \<Rightarrow> Inl (JsError ''TypeError'' ''Cannot convert undefined to a BigInt'')
      | Some d \<Rightarrow>
          Inr \<lparr> permit_amountIn = sp_amountIn params,
                permit_amountOutMin = sp_amountOutMin params,
                permit_amountAllowance = sp_amountAllowance params,
                permit_token = sp_token params,
                permit_to = sp_to params,
                permit_deadline = d,
                permit_v = sp_v params,
                permit_r = sp_r params,
                permit_s = sp_s params \<rparr>)"

definition sellPermit ::
  "(router_call \<Rightarrow> js_thrown + string) \<Rightarrow> (tx_request \<Rightarrow> js_thrown + string)
     \<Rightarrow> (string \<Rightarrow> js_thrown + string) \<Rightarrow> SellPermitParams \<Rightarrow> string
     \<Rightarrow> js_thrown + string" where
  "sellPermit encode sendTransaction waitForTransactionReceipt params router =
     (case sellPermitDataParams params of
        Inl thrown \<Rightarrow> Inl thrown
      | Inr dataParams \<Rightarrow>
          (case encode (SellPermitCall dataParams) of
             Inl thrown \<Rightarrow> Inl thrown
           | Inr sellPermitData \<Rightarrow>
               (case sendTransaction
                       \<lparr> tx_to = router, tx_data = sellPermitData, tx_value = None,
                         tx_gas = sp_gasLimit params, tx_gasPrice = sp_gasPrice params,
                         tx_nonce = sp_nonce params \<rparr> of
                  Inl thrown \<Rightarrow> Inl thrown
                | Inr tx \<Rightarrow>
                    (case waitForTransactionReceipt tx of
                       Inl thrown \<Rightarrow> Inl thrown
                     | Inr receipt_transactionHash \<Rightarrow> Inr receipt_transactionHash))))"

section \<open>DEX pool discovery (stream/dex/stream.ts)\<close>

text \<open>
  The token pair in the factory's order:
  \<open>tokenAddress.toLowerCase() < wmonAddress.toLowerCase() ? [tokenAddress, wmonAddress]
  : [wmonAddress, tokenAddress]\<close>.
\<close>

definition sortTokens :: "string \<Rightarrow> string \<Rightarrow> string \<times> string" where
  "sortTokens tokenAddress wmonAddress =
     (if js_string_less (toLowerCase tokenAddress) (toLowerCase wmonAddress)
      then (tokenAddress, wmonAddress) else (wmonAddress, tokenAddress))"

definition zeroAddress :: string where
  "zeroAddress = ''0x0000000000000000000000000000000000000000''"

text \<open>
  The \<open>for\<close> loop of \<open>findPoolsForTokens\<close>, \<open>poolAddresses\<close> being the array it fills.
  \<open>getPool factory token0 token1 fee\<close> is the answer of \<open>client.readContract\<close> for the
  factory's \<open>getPool\<close>; the addresses \<open>WMON\<close>, \<open>V3_FACTORY\<close> and \<open>NADS_FEE_TIER\<close> come from
  the constants module and are parameters. The body of the loop is inside \<open>try\<close>, its
  \<open>catch\<close> only logs.
\<close>

fun findPoolsForTokens_loop ::
  "(string \<Rightarrow> string \<Rightarrow> string \<Rightarrow> nat \<Rightarrow> js_thrown + string) \<Rightarrow> string \<Rightarrow> string \<Rightarrow> nat
     \<Rightarrow> string list \<Rightarrow> string list \<Rightarrow> string list" where
  "findPoolsForTokens_loop getPool wmonAddress factoryAddress feeTier [] poolAddresses =
     poolAddresses"
| "findPoolsForTokens_loop getPool wmonAddress factoryAddress feeTier
       (tokenAddress # tokenAddresses) poolAddresses =
     (if toLowerCase tokenAddress = toLowerCase wmonAddress
      then findPoolsForTokens_loop getPool wmonAddress factoryAddress feeTier tokenAddresses
             poolAddresses
      else
        (case sortTokens tokenAddress wmonAddress of
           (token0, token1) \<Rightarrow>
             (case getPool factoryAddress token0 token1 feeTier of
                Inl error \<Rightarrow>
                  findPoolsForTokens_loop getPool wmonAddress factoryAddress feeTier
                    tokenAddresses poolAddresses
              | Inr poolAddress \<Rightarrow>
                  if poolAddress \<noteq> [] \<and> poolAddress \<noteq> zeroAddress
                  then findPoolsForTokens_loop getPool wmonAddress factoryAddress feeTier
                         tokenAddresses (poolAddresses @ [poolAddress])
                  else findPoolsForTokens_loop getPool wmonAddress factoryAddress feeTier
                         tokenAddresses poolAddresses)))"

definition findPoolsForTokens ::
  "(string \<Rightarrow> string \<Rightarrow> string \<Rightarrow> nat \<Rightarrow> js_thrown + string) \<Rightarrow> string \<Rightarrow> string \<Rightarrow> nat
     \<Rightarrow> string list \<Rightarrow> string list" where
  "findPoolsForTokens getPool wmonAddress factoryAddress feeTier tokenAddresses =
     findPoolsForTokens_loop getPool wmonAddress factoryAddress feeTier tokenAddresses []"

text \<open>The factory call the loop makes for a token.\<close>

definition factoryLookup ::
  "(string \<Rightarrow> string \<Rightarrow> string \<Rightarrow> nat \<Rightarrow> js_thrown + string) \<Rightarrow> string \<Rightarrow> string \<Rightarrow> nat
     \<Rightarrow> string \<Rightarrow> js_thrown + string" where
  "factoryLookup getPool wmonAddress factoryAddress feeTier tokenAddress =
     getPool factoryAddress (fst (sortTokens tokenAddress wmonAddress))
       (snd (sortTokens tokenAddress wmonAddress)) feeTier"

section \<open>Live streams (stream/curve/stream.ts, stream/dex/stream.ts)\<close>

text \<open>
  The fields of the bonding curve \<open>Stream\<close>. \<open>'h\<close> is the type of the unwatch functions
  viem hands out, \<open>'cb\<close> the type of listener callbacks; the listener \<open>Map\<close> is keyed by
  the random id \<open>onEvent\<close> draws.
\<close>

record ('h, 'cb) curve_stream =
  cs_eventTypes :: "string list"
  cs_tokenFilter :: "string set option"
  cs_listeners :: "string \<rightharpoonup> 'cb"
  cs_isRunning :: bool
  cs_watchFn :: "'h option"
  cs_reconnectAttempts :: nat
  cs_maxReconnectAttempts :: nat
  cs_reconnectDelay :: nat

definition curve_Stream_new :: "('h, 'cb) curve_stream" where
  "curve_Stream_new =
     \<lparr> cs_eventTypes = [], cs_tokenFilter = None, cs_listeners = Map.empty,
       cs_isRunning = False, cs_watchFn = None, cs_reconnectAttempts = 0,
       cs_maxReconnectAttempts = 5, cs_reconnectDelay = 1000 \<rparr>"

definition curve_subscribeEvents ::
  "string list \<Rightarrow> ('h, 'cb) curve_stream \<Rightarrow> ('h, 'cb) curve_stream" where
  "curve_subscribeEvents eventTypes s = s\<lparr> cs_eventTypes := eventTypes \<rparr>"

text \<open>\<open>onEvent\<close>; \<open>id\<close> is the string drawn from \<open>Math.random()\<close>.\<close>

definition curve_onEvent ::
  "string \<Rightarrow> 'cb \<Rightarrow> ('h, 'cb) curve_stream \<Rightarrow> ('h, 'cb) curve_stream" where
  "curve_onEvent ident callback s = s\<lparr> cs_listeners := (cs_listeners s)(ident \<mapsto> callback) \<rparr>"

definition curve_removeAllListeners :: "('h, 'cb) curve_stream \<Rightarrow> ('h, 'cb) curve_stream" where
  "curve_removeAllListeners s = s\<lparr> cs_listeners := Map.empty \<rparr>"

text \<open>
  \<open>start\<close> with \<open>startWatching\<close>; \<open>watchEvent\<close> is what \<open>client.watchEvent\<close> answers (an
  unwatch function, or it throws and the \<open>catch\<close> logs).
\<close>

definition curve_start ::
  "(js_thrown + 'h) \<Rightarrow> ('h, 'cb) curve_stream \<Rightarrow> ('h, 'cb) curve_stream" where
  "curve_start watchEvent s =
     (if cs_isRunning s then s
      else
        let s1 = s\<lparr> cs_isRunning := True, cs_reconnectAttempts := 0 \<rparr>;
            s2 = (if length (cs_eventTypes s1) = 0
                  then curve_subscribeEvents
                         [''CurveCreate'', ''CurveBuy'', ''CurveSell'', ''CurveSync'',
                          ''CurveTokenLocked'', ''CurveTokenListed''] s1
                  else s1)
        in (case watchEvent of
              Inr unwatch \<Rightarrow> s2\<lparr> cs_watchFn := Some unwatch \<rparr>
            | Inl error \<Rightarrow> s2))"

text \<open>
  \<open>stop\<close>. \<open>call\<close> runs an unwatch function (it may throw). The result is the new state
  with the list of the unwatch functions that were called.
\<close>

definition curve_stop ::
  "('h \<Rightarrow> js_thrown + unit) \<Rightarrow> ('h, 'cb) curve_stream \<Rightarrow> ('h, 'cb) curve_stream \<times> 'h list" where
  "curve_stop call s =
     (if \<not> cs_isRunning s then (s, [])
      else
        let (s1, called) =
              (case cs_watchFn s of
                 None \<Rightarrow> (s, [])
               | Some watchFn \<Rightarrow>
                   (case call watchFn of
                      Inr u \<Rightarrow> (s\<lparr> cs_watchFn := None \<rparr>, [watchFn])
                    | Inl error \<Rightarrow> (s, [watchFn])));
            s2 = curve_removeAllListeners s1
        in (s2\<lparr> cs_isRunning := False, cs_reconnectAttempts := 0 \<rparr>, called))"

text \<open>The fields of the DEX \<open>Stream\<close>: one unwatch function for each pool watched.\<close>

record ('h, 'cb) dex_stream =
  ds_poolAddresses :: "string list"
  ds_listeners :: "string \<rightharpoonup> 'cb"
  ds_isRunning :: bool
  ds_watchFunctions :: "'h list"
  ds_reconnectAttempts :: nat
  ds_maxReconnectAttempts :: nat
  ds_reconnectDelay :: nat

definition dex_Stream_new :: "string list \<Rightarrow> ('h, 'cb) dex_stream" where
  "dex_Stream_new poolAddresses =
     \<lparr> ds_poolAddresses = poolAddresses, ds_listeners = Map.empty, ds_isRunning = False,
       ds_watchFunctions = [], ds_reconnectAttempts = 0, ds_maxReconnectAttempts = 5,
       ds_reconnectDelay = 1000 \<rparr>"

definition dex_onSwap ::
  "string \<Rightarrow> 'cb \<Rightarrow> ('h, 'cb) dex_stream \<Rightarrow> ('h, 'cb) dex_stream" where
  "dex_onSwap ident callback s = s\<lparr> ds_listeners := (ds_listeners s)(ident \<mapsto> callback) \<rparr>"

definition dex_removeAllListeners :: "('h, 'cb) dex_stream \<Rightarrow> ('h, 'cb) dex_stream" where
  "dex_removeAllListeners s = s\<lparr> ds_listeners := Map.empty \<rparr>"

text \<open>\<open>watchPoolEvents\<close>: \<open>watchContractEvent\<close> answers per pool.\<close>

definition dex_watchPoolEvents ::
  "(string \<Rightarrow> js_thrown + 'h) \<Rightarrow> string \<Rightarrow> ('h, 'cb) dex_stream \<Rightarrow> ('h, 'cb) dex_stream" where
  "dex_watchPoolEvents watchContractEvent poolAddress s =
     (case watchContractEvent poolAddress of
        Inr watch \<Rightarrow> s\<lparr> ds_watchFunctions := ds_watchFunctions s @ [watch] \<rparr>
      | Inl error \<Rightarrow> s)"

definition dex_start ::
  "(string \<Rightarrow> js_thrown + 'h) \<Rightarrow> ('h, 'cb) dex_stream \<Rightarrow> ('h, 'cb) dex_stream" where
  "dex_start watchContractEvent s =
     (if ds_isRunning s then s
      else if length (ds_poolAddresses s) = 0 then s
      else fold (dex_watchPoolEvents watchContractEvent) (ds_poolAddresses s)
             (s\<lparr> ds_isRunning := True, ds_reconnectAttempts := 0 \<rparr>))"

text \<open>
  \<open>stop\<close>: every unwatch function is called, each inside its own \<open>try\<close>, so what a
  call answers changes nothing.
\<close>

definition dex_stop :: "('h, 'cb) dex_stream \<Rightarrow> ('h, 'cb) dex_stream \<times> 'h list" where
  "dex_stop s =
     (if \<not> ds_isRunning s then (s, [])
      else
        let called = ds_watchFunctions s;
            s1 = s\<lparr> ds_watchFunctions := [] \<rparr>;
            s2 = dex_removeAllListeners s1
        in (s2\<lparr> ds_isRunning := False, ds_reconnectAttempts := 0 \<rparr>, called))"

section \<open>What the bots see of the outside\<close>

text \<open>
  The answers of the collaborators during one step of a bot (one Create event, one
  bundled operation): the clock, viem's pure helpers, the chain RPC, the price lens and
  the token contract. \<open>w_clock\<close> holds the answers of \<open>Date.now()\<close>; each function below
  reads the clock at an index of its own.
  \<open>w_confirm\<close> is the receipt wait that \<open>BundlerBot.execute\<close> itself makes after an
  operation, a later call than the one inside \<open>Trade.buy\<close>.
\<close>

record world =
  w_clock :: "nat \<Rightarrow> int"
  w_account :: string
  w_parseEther :: "string \<Rightarrow> js_thrown + int"
  w_parseUnits :: "string \<Rightarrow> nat \<Rightarrow> js_thrown + int"
  w_encode :: "router_call \<Rightarrow> js_thrown + string"
  w_estimateGas :: "estimate_request \<Rightarrow> js_thrown + int"
  w_sendTransaction :: "tx_request \<Rightarrow> js_thrown + string"
  w_waitForTransactionReceipt :: "string \<Rightarrow> js_thrown + string"
  w_confirm :: "string \<Rightarrow> js_thrown + unit"
  w_getBalance :: "string \<Rightarrow> js_thrown + int"
  w_getGasPrice :: "js_thrown + int"
  w_lens_getAmountOut :: "string \<Rightarrow> int \<Rightarrow> bool \<Rightarrow> js_thrown + string \<times> int"
  w_token_getDecimals :: "string \<Rightarrow> js_thrown + nat"
  w_token_getBalance :: "string \<Rightarrow> js_thrown + int"
  w_token_getAllowance :: "string \<Rightarrow> string \<Rightarrow> js_thrown + int"
  w_token_approve :: "string \<Rightarrow> string \<Rightarrow> int \<Rightarrow> js_thrown + string"
  w_token_generatePermitSignature ::
    "string \<Rightarrow> string \<Rightarrow> int \<Rightarrow> int \<Rightarrow> js_thrown + int \<times> string \<times> string"

text \<open>\<open>await\<close> inside a \<open>try\<close>: a rejected promise leaves the block with what was thrown.\<close>

definition await :: "js_thrown + 'a \<Rightarrow> ('a \<Rightarrow> js_thrown + 'b) \<Rightarrow> js_thrown + 'b" where
  "await r k = (case r of Inl thrown \<Rightarrow> Inl thrown | Inr v \<Rightarrow> k v)"

record QuoteResult =
  quote_router :: string
  quote_amount :: int

text \<open>\<open>Trade.getAmountOut\<close>: the \<open>catch\<close> logs and throws the same error again.\<close>

definition getAmountOut :: "world \<Rightarrow> string \<Rightarrow> int \<Rightarrow> bool \<Rightarrow> js_thrown + QuoteResult" where
  "getAmountOut w tok amountIn isBuy =
     (case w_lens_getAmountOut w tok amountIn isBuy of
        Inr result \<Rightarrow> Inr \<lparr> quote_router = fst result, quote_amount = snd result \<rparr>
      | Inl error \<Rightarrow> Inl error)"

text \<open>
  Gas price with multiplier and cap, as in \<open>SniperBot.executeBuy\<close> and
  \<open>BundlerBot.getGasPrice\<close>; an unset or zero option is falsy.
\<close>

definition finalGasPrice :: "(real \<Rightarrow> real) \<Rightarrow> real option \<Rightarrow> int option \<Rightarrow> int \<Rightarrow> int" where
  "finalGasPrice fl gasMultiplier maxGasPrice gasPrice =
     (let price1 =
            (case gasMultiplier of
               Some m \<Rightarrow> if m \<noteq> 0 \<and> m > 1
                         then bigint_div (gasPrice * \<lfloor>fl (m * 100)\<rfloor>) 100 else gasPrice
             | None \<Rightarrow> gasPrice)
      in case maxGasPrice of
           Some cap \<Rightarrow> if cap \<noteq> 0 \<and> price1 > cap then cap else price1
         | None \<Rightarrow> price1)"

section \<open>Sniper bot (bots/sniper.ts)\<close>

text \<open>
  The configuration after the constructor's defaults. The custom filter returns a boolean
  or a promise of one: calling it either throws at once (\<open>Inl\<close>) or gives something to
  await (\<open>Inr\<close>), which later yields the boolean or is rejected.
\<close>

record SniperConfig =
  sc_buyAmount :: string
  sc_slippagePercent :: real
  sc_gasMultiplier :: "real option"
  sc_maxGasPrice :: "int option"
  sc_minBuyInterval :: "int option"
  sc_tokenWhitelist :: "string list option"
  sc_tokenBlacklist :: "string list option"
  sc_tokenFilter :: "(curve_event \<Rightarrow> js_thrown + (js_thrown + bool)) option"
  sc_autoBuy :: "bool option"

record sniper_stats =
  totalEvents :: nat
  totalBuys :: nat
  successfulBuys :: nat
  failedBuys :: nat
  skippedBuys :: nat

record SniperBot =
  sb_config :: SniperConfig
  sb_isRunning :: bool
  sb_lastBuyTime :: int
  sb_stats :: sniper_stats

text \<open>The state the constructor leaves, given the configuration after its defaults.\<close>

definition SniperBot_new :: "SniperConfig \<Rightarrow> SniperBot" where
  "SniperBot_new cfg =
     \<lparr> sb_config = cfg, sb_isRunning = False, sb_lastBuyTime = 0,
       sb_stats = \<lparr> totalEvents = 0, totalBuys = 0, successfulBuys = 0, failedBuys = 0,
                 skippedBuys = 0 \<rparr> \<rparr>"

text \<open>
  The \<open>try\<close> block of \<open>executeBuy\<close> up to the transaction hash. The text of the
  insufficient-balance message is shortened. The success and error callbacks run inside
  their own \<open>try\<close> and are left out.
\<close>

definition executeBuy_try ::
  "(real \<Rightarrow> real) \<Rightarrow> world \<Rightarrow> curve_event \<Rightarrow> SniperConfig \<Rightarrow> js_thrown + string" where
  "executeBuy_try fl w event cfg =
     (let tokenAddress = token event in
      await (w_parseEther w (sc_buyAmount cfg)) (\<lambda>buyAmountWei.
      await (w_getBalance w (w_account w)) (\<lambda>balance.
      if balance < buyAmountWei then Inl (new_Error ''Insufficient balance'')
      else
      await (getAmountOut w tokenAddress buyAmountWei True) (\<lambda>quote.
      await (calculateMinAmountOut fl (quote_amount quote) (sc_slippagePercent cfg)) (\<lambda>minTokens.
      await (w_getGasPrice w) (\<lambda>gasPrice.
      let price = finalGasPrice fl (sc_gasMultiplier cfg) (sc_maxGasPrice cfg) gasPrice;
          deadline = w_clock w 2 div 1000 + 300;
          gasParams = Buy tokenAddress buyAmountWei minTokens (w_account w) deadline
      in
      await (estimateGas (w_encode w) (w_estimateGas w) (quote_router quote) gasParams)
        (\<lambda>estimatedGas.
      let gasWithBuffer = bigint_div (estimatedGas * 120) 100 in
      buy (w_encode w) (w_sendTransaction w) (w_waitForTransactionReceipt w) (w_clock w 3)
        \<lparr> bp_token = tokenAddress, bp_to = w_account w, bp_amountIn = buyAmountWei,
          bp_amountOutMin = minTokens, bp_deadline = Some deadline,
          bp_gasLimit = Some gasWithBuffer, bp_gasPrice = Some price, bp_nonce = None \<rparr>
        (quote_router quote))))))))"

text \<open>
  \<open>handleCreateEvent\<close> is an \<open>async\<close> function and the stream calls its listeners
  without awaiting them, so the handler of a later event can run while an earlier one is
  suspended. A handler changes the bot in up to three synchronous runs; between them it
  is suspended at an \<open>await\<close>:
  \<^item> \<open>AwaitingFilter\<close>: at \<open>await this.config.tokenFilter(event)\<close>;
  \<^item> \<open>AwaitingTrade\<close>: inside the \<open>try\<close> of \<open>executeBuy\<close>, whose awaits read the chain
    and touch no field of the bot until the trade has succeeded or failed.
  Each run takes the outside as it is when the run happens.
\<close>

datatype handler_state = Finished | AwaitingFilter | AwaitingTrade

text \<open>
  The first two statements of \<open>executeBuy\<close>, which run before its first \<open>await\<close>;
  \<open>lastBuyTime\<close> becomes \<open>w_clock w 1\<close>.
\<close>

definition executeBuy_start :: "world \<Rightarrow> SniperBot \<Rightarrow> SniperBot" where
  "executeBuy_start w sb =
     (let sb1 = sb\<lparr> sb_stats := (sb_stats sb)\<lparr> totalBuys := totalBuys (sb_stats sb) + 1 \<rparr> \<rparr>
      in sb1\<lparr> sb_lastBuyTime := w_clock w 1 \<rparr>)"

text \<open>The end of \<open>executeBuy\<close>: the \<open>try\<close> has returned a hash or the \<open>catch\<close> has run.\<close>

definition executeBuy_finish ::
  "(real \<Rightarrow> real) \<Rightarrow> world \<Rightarrow> curve_event \<Rightarrow> SniperBot \<Rightarrow> SniperBot" where
  "executeBuy_finish fl w event sb =
     (case executeBuy_try fl w event (sb_config sb) of
        Inr txHash \<Rightarrow>
          sb\<lparr> sb_stats := (sb_stats sb)\<lparr> successfulBuys := successfulBuys (sb_stats sb) + 1 \<rparr> \<rparr>
      | Inl error \<Rightarrow>
          sb\<lparr> sb_stats := (sb_stats sb)\<lparr> failedBuys := failedBuys (sb_stats sb) + 1 \<rparr> \<rparr>)"

definition skipBuy :: "SniperBot \<Rightarrow> SniperBot" where
  "skipBuy sb = sb\<lparr> sb_stats := (sb_stats sb)\<lparr> skippedBuys := skippedBuys (sb_stats sb) + 1 \<rparr> \<rparr>"

text \<open>\<open>if (this.config.autoBuy) await this.executeBuy(event)\<close>, up to the first \<open>await\<close>.\<close>

definition autoBuy_step :: "world \<Rightarrow> SniperBot \<Rightarrow> SniperBot \<times> handler_state" where
  "autoBuy_step w sb =
     (if sc_autoBuy (sb_config sb) = Some True then (executeBuy_start w sb, AwaitingTrade)
      else (sb, Finished))"

text \<open>
  The first run of \<open>handleCreateEvent\<close>: the counter, the rate limit (it reads
  \<open>w_clock w 0\<close>), the whitelist and the blacklist. With a custom filter set it calls the
  filter and, unless the call throws at once, is suspended at the \<open>await\<close>; with none it
  goes on into \<open>executeBuy\<close> in the same run.
\<close>

definition handleCreateEvent_start ::
  "world \<Rightarrow> curve_event \<Rightarrow> SniperBot \<Rightarrow> SniperBot \<times> handler_state" where
  "handleCreateEvent_start w event sb0 =
     (let sb = sb0\<lparr> sb_stats := (sb_stats sb0)\<lparr> totalEvents := totalEvents (sb_stats sb0) + 1 \<rparr> \<rparr>;
          now = w_clock w 0;
          cfg = sb_config sb
      in
      if now - sb_lastBuyTime sb
           < (case sc_minBuyInterval cfg of
                Some i \<Rightarrow> if i \<noteq> 0 then i else 1000
              | None \<Rightarrow> 1000)
      then (skipBuy sb, Finished)
      else if (case sc_tokenWhitelist cfg of
                 Some wl \<Rightarrow> length wl > 0
                   \<and> \<not> list_ex (\<lambda>addr. toLowerCase addr = toLowerCase (token event)) wl
               | None \<Rightarrow> False)
      then (skipBuy sb, Finished)
      else if (case sc_tokenBlacklist cfg of
                 Some bl \<Rightarrow> length bl > 0
                   \<and> list_ex (\<lambda>addr. toLowerCase addr = toLowerCase (token event)) bl
               | None \<Rightarrow> False)
      then (skipBuy sb, Finished)
      else
        (case sc_tokenFilter cfg of
           Some predicate \<Rightarrow>
             (case predicate event of
                Inl error \<Rightarrow> (skipBuy sb, Finished)
              | Inr promise \<Rightarrow> (sb, AwaitingFilter))
         | None \<Rightarrow> autoBuy_step w sb))"

text \<open>
  The run after the awaited filter has settled (\<open>Inl\<close>: the promise was rejected). The
  rate limit is not tested again. A handler is only resumed when it was suspended at the
  filter, so the other cases have no input.
\<close>

definition handleCreateEvent_resume ::
  "world \<Rightarrow> curve_event \<Rightarrow> SniperBot \<Rightarrow> SniperBot \<times> handler_state" where
  "handleCreateEvent_resume w event sb =
     (case sc_tokenFilter (sb_config sb) of
        Some predicate \<Rightarrow>
          (case predicate event of
             Inr (Inl error) \<Rightarrow> (skipBuy sb, Finished)
           | Inr (Inr shouldBuy) \<Rightarrow>
               if \<not> shouldBuy then (skipBuy sb, Finished)
               else autoBuy_step w sb
           | Inl error \<Rightarrow> (sb, Finished))
      | None \<Rightarrow> (sb, Finished))"

text \<open>
  A handler that no other handler interrupts: its runs one after the other, all within
  the same outside.
\<close>

definition handleCreateEvent_uninterrupted ::
  "(real \<Rightarrow> real) \<Rightarrow> world \<Rightarrow> curve_event \<Rightarrow> SniperBot \<Rightarrow> SniperBot" where
  "handleCreateEvent_uninterrupted fl w event sb0 =
     (case handleCreateEvent_start w event sb0 of
        (sb, Finished) \<Rightarrow> sb
      | (sb, AwaitingTrade) \<Rightarrow> executeBuy_finish fl w event sb
      | (sb, AwaitingFilter) \<Rightarrow>
          (case handleCreateEvent_resume w event sb of
             (sb1, AwaitingTrade) \<Rightarrow> executeBuy_finish fl w event sb1
           | (sb1, other) \<Rightarrow> sb1))"

text \<open>
  An event passes all the filters of a configuration: the whitelist, the blacklist and
  the custom predicate let it through.
\<close>

definition passes_filters :: "SniperConfig \<Rightarrow> curve_event \<Rightarrow> bool" where
  "passes_filters cfg event =
     ((case sc_tokenWhitelist cfg of
         Some wl \<Rightarrow> wl = []
           \<or> list_ex (\<lambda>addr. toLowerCase addr = toLowerCase (token event)) wl
       | None \<Rightarrow> True)
      \<and> (case sc_tokenBlacklist cfg of
           Some bl \<Rightarrow> \<not> list_ex (\<lambda>addr. toLowerCase addr = toLowerCase (token event)) bl
         | None \<Rightarrow> True)
      \<and> (case sc_tokenFilter cfg of
           Some predicate \<Rightarrow> predicate event = Inr (Inr True)
         | None \<Rightarrow> True))"

text \<open>The bot after \<open>this.stats.totalEvents++\<close>.\<close>

definition counted :: "SniperBot \<Rightarrow> SniperBot" where
  "counted sb = sb\<lparr> sb_stats := (sb_stats sb)\<lparr> totalEvents := totalEvents (sb_stats sb) + 1 \<rparr> \<rparr>"

section \<open>Bundler bot (bots/bundler.ts)\<close>

text \<open>\<open>bigint.toString()\<close>: decimal digits.\<close>

fun nat_toString :: "nat \<Rightarrow> string" where
  "nat_toString n =
     (if n < 10 then [char_of (48 + n)]
      else nat_toString (n div 10) @ [char_of (48 + n mod 10)])"

declare nat_toString.simps [simp del]

definition bigint_toString :: "int \<Rightarrow> string" where
  "bigint_toString i = (if i < 0 then CHR ''-'' # nat_toString (nat (- i)) else nat_toString (nat i))"

text \<open>
  \<open>error.message || String(error)\<close>: an \<open>Error\<close> with an empty message prints as its
  name, another thrown value as itself.
\<close>

definition error_text :: "js_thrown \<Rightarrow> string" where
  "error_text error =
     (case error of
        JsError n m \<Rightarrow> if m \<noteq> [] then m else n
      | JsNonError v \<Rightarrow> v)"

text \<open>
  \<open>BundledOperation\<close>: the union tagged \<open>'buy'\<close>, \<open>'sell'\<close>, \<open>'sellPermit'\<close>, each with
  \<open>token\<close>, \<open>amountIn\<close> and the optional \<open>slippagePercent\<close>. The type has no other tag, so
  the \<open>default\<close> branch of the \<open>switch\<close> in \<open>execute\<close> has no input.
\<close>

datatype BundledOperation =
  OpBuy (op_token: string) (op_amountIn: string) (op_slippagePercent: "real option")
| OpSell (op_token: string) (op_amountIn: string) (op_slippagePercent: "real option")
| OpSellPermit (op_token: string) (op_amountIn: string) (op_slippagePercent: "real option")

record BundlerConfig =
  bc_defaultSlippagePercent :: "real option"
  bc_gasMultiplier :: "real option"
  bc_maxGasPrice :: "int option"
  bc_waitForConfirmation :: "bool option"

record BundledOperationResult =
  res_operation :: BundledOperation
  res_success :: bool
  res_txHash :: "string option"
  res_error :: "string option"
  res_expectedAmount :: "int option"
  res_actualAmount :: "int option"

definition failed_result :: "BundledOperation \<Rightarrow> string \<Rightarrow> BundledOperationResult" where
  "failed_result operation msg =
     \<lparr> res_operation = operation, res_success = False, res_txHash = None,
       res_error = Some msg, res_expectedAmount = None, res_actualAmount = None \<rparr>"

definition success_result :: "BundledOperation \<Rightarrow> string \<Rightarrow> int \<Rightarrow> BundledOperationResult" where
  "success_result operation txHash expected =
     \<lparr> res_operation = operation, res_success = True, res_txHash = Some txHash,
       res_error = None, res_expectedAmount = Some expected, res_actualAmount = None \<rparr>"

text \<open>
  \<open>operation.slippagePercent || this.config.defaultSlippagePercent || 5.0\<close>: unset and 0
  are falsy.
\<close>

definition slippage_of :: "BundlerConfig \<Rightarrow> BundledOperation \<Rightarrow> real" where
  "slippage_of cfg operation =
     (case op_slippagePercent operation of
        Some p \<Rightarrow> if p \<noteq> 0 then p
                  else (case bc_defaultSlippagePercent cfg of
                          Some d \<Rightarrow> if d \<noteq> 0 then d else 5
                        | None \<Rightarrow> 5)
      | None \<Rightarrow> (case bc_defaultSlippagePercent cfg of
                   Some d \<Rightarrow> if d \<noteq> 0 then d else 5
                 | None \<Rightarrow> 5))"

definition getGasPrice :: "(real \<Rightarrow> real) \<Rightarrow> world \<Rightarrow> BundlerConfig \<Rightarrow> js_thrown + int" where
  "getGasPrice fl w cfg =
     await (w_getGasPrice w) (\<lambda>gasPrice.
       Inr (finalGasPrice fl (bc_gasMultiplier cfg) (bc_maxGasPrice cfg) gasPrice))"

text \<open>
  The three operations. Each body is one \<open>try\<close> whose \<open>catch\<close> returns a failed result,
  so none of them throws.
\<close>

definition BundlerBot_executeBuy ::
  "(real \<Rightarrow> real) \<Rightarrow> world \<Rightarrow> BundlerConfig \<Rightarrow> BundledOperation \<Rightarrow> BundledOperationResult" where
  "BundlerBot_executeBuy fl w cfg operation =
     (case
        (let slippage = slippage_of cfg operation in
         await (w_parseEther w (op_amountIn operation)) (\<lambda>amountIn.
         await (w_getBalance w (w_account w)) (\<lambda>balance.
         if balance < amountIn
         then Inr (failed_result operation
                     (''Insufficient balance: '' @ bigint_toString balance @ '' < ''
                      @ bigint_toString amountIn))
         else
         await (getAmountOut w (op_token operation) amountIn True) (\<lambda>quote.
         await (calculateMinAmountOut fl (quote_amount quote) slippage) (\<lambda>minTokens.
         await (getGasPrice fl w cfg) (\<lambda>gasPrice.
         let deadline = w_clock w 0 div 1000 + 300;
             gasParams = Buy (op_token operation) amountIn minTokens (w_account w) deadline
         in
         await (estimateGas (w_encode w) (w_estimateGas w) (quote_router quote) gasParams)
           (\<lambda>estimatedGas.
         let gasWithBuffer = bigint_div (estimatedGas * 120) 100 in
         await (buy (w_encode w) (w_sendTransaction w) (w_waitForTransactionReceipt w)
                  (w_clock w 1)
                  \<lparr> bp_token = op_token operation, bp_to = w_account w,
                    bp_amountIn = amountIn, bp_amountOutMin = minTokens,
                    bp_deadline = Some deadline, bp_gasLimit = Some gasWithBuffer,
                    bp_gasPrice = Some gasPrice, bp_nonce = None \<rparr>
                  (quote_router quote))
           (\<lambda>txHash. Inr (success_result operation txHash (quote_amount quote)))))))))) of
        Inr result \<Rightarrow> result
      | Inl error \<Rightarrow> failed_result operation (error_text error))"

definition BundlerBot_executeSell ::
  "(real \<Rightarrow> real) \<Rightarrow> world \<Rightarrow> BundlerConfig \<Rightarrow> BundledOperation \<Rightarrow> BundledOperationResult" where
  "BundlerBot_executeSell fl w cfg operation =
     (case
        (let slippage = slippage_of cfg operation in
         await (w_token_getDecimals w (op_token operation)) (\<lambda>decimals.
         await (w_parseUnits w (op_amountIn operation) decimals) (\<lambda>amountIn.
         await (w_token_getBalance w (op_token operation)) (\<lambda>balance.
         if balance < amountIn
         then Inr (failed_result operation
                     (''Insufficient token balance: '' @ bigint_toString balance @ '' < ''
                      @ bigint_toString amountIn))
         else
         await (getAmountOut w (op_token operation) 1 False) (\<lambda>routerQuote.
         await (w_token_getAllowance w (op_token operation) (quote_router routerQuote))
           (\<lambda>allowance.
         await (if allowance < amountIn
                then w_token_approve w (op_token operation) (quote_router routerQuote) amountIn
                else Inr [])
           (\<lambda>approved.
         await (getAmountOut w (op_token operation) amountIn False) (\<lambda>quote.
         await (calculateMinAmountOut fl (quote_amount quote) slippage) (\<lambda>minMon.
         await (getGasPrice fl w cfg) (\<lambda>gasPrice.
         let deadline = w_clock w 0 div 1000 + 300;
             gasParams = Sell (op_token operation) amountIn minMon (w_account w) deadline
         in
         await (estimateGas (w_encode w) (w_estimateGas w) (quote_router routerQuote)
                  gasParams)
           (\<lambda>estimatedGas.
         let gasWithBuffer = bigint_div (estimatedGas * 120) 100 in
         await (sell (w_encode w) (w_sendTransaction w) (w_waitForTransactionReceipt w)
                  (w_clock w 1)
                  \<lparr> sp_token = op_token operation, sp_to = w_account w,
                    sp_amountIn = amountIn, sp_amountOutMin = minMon,
                    sp_deadline = Some deadline, sp_gasLimit = Some gasWithBuffer,
                    sp_gasPrice = Some gasPrice, sp_nonce = None \<rparr>
                  (quote_router routerQuote))
           (\<lambda>txHash. Inr (success_result operation txHash (quote_amount quote))))))))))))))
      of
        Inr result \<Rightarrow> result
      | Inl error \<Rightarrow> failed_result operation (error_text error))"

definition BundlerBot_executeSellPermit ::
  "(real \<Rightarrow> real) \<Rightarrow> world \<Rightarrow> BundlerConfig \<Rightarrow> BundledOperation \<Rightarrow> BundledOperationResult" where
  "BundlerBot_executeSellPermit fl w cfg operation =
     (case
        (let slippage = slippage_of cfg operation in
         await (w_token_getDecimals w (op_token operation)) (\<lambda>decimals.
         await (w_parseUnits w (op_amountIn operation) decimals) (\<lambda>amountIn.
         await (w_token_getBalance w (op_token operation)) (\<lambda>balance.
         if balance < amountIn
         then Inr (failed_result operation
                     (''Insufficient token balance: '' @ bigint_toString balance @ '' < ''
                      @ bigint_toString amountIn))
         else
         await (getAmountOut w (op_token operation) 1 False) (\<lambda>routerQuote.
         await (getAmountOut w (op_token operation) amountIn False) (\<lambda>quote.
         await (calculateMinAmountOut fl (quote_amount quote) slippage) (\<lambda>minMon.
         let deadline = w_clock w 0 div 1000 + 300;
             permitDeadline = deadline
         in
         await (w_token_generatePermitSignature w (op_token operation)
                  (quote_router routerQuote) amountIn permitDeadline)
           (\<lambda>permit.
         await (getGasPrice fl w cfg) (\<lambda>gasPrice.
         let gasParams =
               SellPermit (op_token operation) amountIn minMon amountIn (w_account w) deadline
                 (fst permit) (fst (snd permit)) (snd (snd permit))
         in
         await (estimateGas (w_encode w) (w_estimateGas w) (quote_router routerQuote)
                  gasParams)
           (\<lambda>estimatedGas.
         let gasWithBuffer = bigint_div (estimatedGas * 120) 100 in
         await (sellPermit (w_encode w) (w_sendTransaction w) (w_waitForTransactionReceipt w)
                  \<lparr> sp_token = op_token operation, sp_to = w_account w,
                    sp_amountIn = amountIn, sp_amountOutMin = minMon,
                    sp_deadline = Some deadline, sp_gasLimit = Some gasWithBuffer,
                    sp_gasPrice = Some gasPrice, sp_nonce = None,
                    sp_amountAllowance = amountIn, sp_v = fst permit,
                    sp_r = fst (snd permit), sp_s = snd (snd permit) \<rparr>
                  (quote_router routerQuote))
           (\<lambda>txHash. Inr (success_result operation txHash (quote_amount quote)))))))))))))
      of
        Inr result \<Rightarrow> result
      | Inl error \<Rightarrow> failed_result operation (error_text error))"

text \<open>
  The \<open>for\<close> loop of \<open>execute\<close>: \<open>i\<close> is the index of the operation at the head of the
  list, \<open>worlds i\<close> the outside during operation \<open>i\<close>, \<open>results\<close> the array being filled.
  The \<open>try\<close> pushes the result and then, if confirmation is on and the result has a hash,
  waits for the receipt; the \<open>catch\<close> pushes a failed result.
\<close>

fun execute_loop ::
  "(real \<Rightarrow> real) \<Rightarrow> (nat \<Rightarrow> world) \<Rightarrow> BundlerConfig \<Rightarrow> BundledOperation list \<Rightarrow> nat
     \<Rightarrow> BundledOperationResult list \<Rightarrow> BundledOperationResult list" where
  "execute_loop fl worlds cfg [] i results = results"
| "execute_loop fl worlds cfg (operation # operations) i results =
     (let w = worlds i;
          result =
            (case operation of
               OpBuy t a s \<Rightarrow> BundlerBot_executeBuy fl w cfg operation
             | OpSell t a s \<Rightarrow> BundlerBot_executeSell fl w cfg operation
             | OpSellPermit t a s \<Rightarrow> BundlerBot_executeSellPermit fl w cfg operation);
          results1 = results @ [result]
      in
      if bc_waitForConfirmation cfg = Some True \<and> res_success result
         \<and> (case res_txHash result of Some h \<Rightarrow> h \<noteq> [] | None \<Rightarrow> False)
      then
        (case w_confirm w (the (res_txHash result)) of
           Inr receipt \<Rightarrow> execute_loop fl worlds cfg operations (i + 1) results1
         | Inl error \<Rightarrow>
             execute_loop fl worlds cfg operations (i + 1)
               (results1 @ [failed_result operation (error_text error)]))
      else execute_loop fl worlds cfg operations (i + 1) results1)"

definition execute ::
  "(real \<Rightarrow> real) \<Rightarrow> (nat \<Rightarrow> world) \<Rightarrow> BundlerConfig \<Rightarrow> BundledOperation list
     \<Rightarrow> BundledOperationResult list" where
  "execute fl worlds cfg operations = execute_loop fl worlds cfg operations 0 []"

text \<open>The two counts of the summary.\<close>

definition successful :: "BundledOperationResult list \<Rightarrow> nat" where
  "successful results = length (filter (\<lambda>r. res_success r) results)"

definition failed :: "BundledOperationResult list \<Rightarrow> nat" where
  "failed results = length (filter (\<lambda>r. \<not> res_success r) results)"

text \<open>A block that, if it returns a result, returns one for the given operation.\<close>

definition yields_for :: "BundledOperation \<Rightarrow> js_thrown + BundledOperationResult \<Rightarrow> bool" where
  "yields_for operation r = (case r of Inr x \<Rightarrow> res_operation x = operation | Inl e \<Rightarrow> True)"

section \<open>Concrete inputs\<close>

definition ex_key :: "int \<Rightarrow> int \<Rightarrow> int \<Rightarrow> ordering_keys" where
  "ex_key b t l = \<lparr> blockNumber = b, transactionIndex = t, logIndex = l \<rparr>"

definition ex_store :: "ordering_keys array_store" where
  "ex_store r = (if r = 0 then [ex_key 2 0 0, ex_key 1 1 0, ex_key 1 0 3]
                 else [ex_key 9 0 0, ex_key 8 0 0])"

definition ex_log :: "int \<Rightarrow> int \<Rightarrow> int \<Rightarrow> raw_log" where
  "ex_log b t l =
     \<lparr> log_blockNumber = b, log_transactionHash = ''0xaa'', log_transactionIndex = t,
       log_logIndex = l, log_address = ''0xcc'',
       log_parsed = Inr (Some (CurveTokenLocked ''0xAb'')) \<rparr>"

definition ex_chain :: "int \<Rightarrow> raw_log list" where
  "ex_chain b = (if b = 1 then [ex_log 1 0 1, ex_log 1 0 0]
                 else if b = 3 then [ex_log 3 2 0] else [])"

definition ex_encode :: "router_call \<Rightarrow> js_thrown + string" where
  "ex_encode c =
     Inr (case c of BuyCall a \<Rightarrow> ''0xbuy'' | SellCall a \<Rightarrow> ''0xsell''
          | SellPermitCall a \<Rightarrow> ''0xsellPermit'')"

definition ex_revert :: js_thrown where
  "ex_revert = JsError ''EstimateGasExecutionError'' ''execution reverted''"

definition ex_estimate_reverts :: "estimate_request \<Rightarrow> js_thrown + int" where
  "ex_estimate_reverts req = Inl ex_revert"

definition ex_buyParams :: BuyParams where
  "ex_buyParams =
     \<lparr> bp_token = ''0xtoken'', bp_to = ''0xme'', bp_amountIn = 5, bp_amountOutMin = 1,
       bp_deadline = None, bp_gasLimit = None, bp_gasPrice = None, bp_nonce = None \<rparr>"

definition ex_sellParams :: SellParams where
  "ex_sellParams =
     \<lparr> sp_token = ''0xtoken'', sp_to = ''0xme'', sp_amountIn = 5, sp_amountOutMin = 1,
       sp_deadline = None, sp_gasLimit = None, sp_gasPrice = None, sp_nonce = None \<rparr>"

definition ex_sellPermitParams :: "int option \<Rightarrow> SellPermitParams" where
  "ex_sellPermitParams d =
     \<lparr> sp_token = ''0xtoken'', sp_to = ''0xme'', sp_amountIn = 5, sp_amountOutMin = 1,
       sp_deadline = d, sp_gasLimit = None, sp_gasPrice = None, sp_nonce = None,
       sp_amountAllowance = 5, sp_v = 27, sp_r = ''0x01'', sp_s = ''0x02'' \<rparr>"

definition ex_send :: "tx_request \<Rightarrow> js_thrown + string" where
  "ex_send req = Inr ''0xhash''"

definition ex_wait :: "string \<Rightarrow> js_thrown + string" where
  "ex_wait h = Inr h"

definition ex_getPool :: "string \<Rightarrow> string \<Rightarrow> string \<Rightarrow> nat \<Rightarrow> js_thrown + string" where
  "ex_getPool factory token0 token1 fee =
     (if token0 = ''0xdead'' \<or> token1 = ''0xdead''
      then Inl (JsError ''ContractFunctionExecutionError'' ''call failed'')
      else if token0 = ''0x00'' \<or> token1 = ''0x00'' then Inr zeroAddress
      else Inr (''0xpool'' @ token0 @ token1))"

definition ex_stream :: "(nat, nat) curve_stream" where
  "ex_stream = curve_onEvent ''k3x9'' 7 curve_Stream_new"

definition ex_dex_stream :: "(nat, nat) dex_stream" where
  "ex_dex_stream = dex_onSwap ''p0q1'' 8 (dex_Stream_new [''0xpool''])"

definition ex_call :: "nat \<Rightarrow> js_thrown + unit" where
  "ex_call h = Inr ()"

definition ex_create :: "string \<Rightarrow> curve_event" where
  "ex_create tok =
     \<lparr> blockNumber = 10, transactionIndex = 0, logIndex = 0, transactionHash = ''0xtx'',
       address = ''0xcurve'', token = tok, timestamp = Some 1700000000,
       event_type = ''CurveCreate'',
       event_args = CurveCreate ''0xcreator'' tok ''0xpool'' ''Name'' ''SYM'' ''uri'' 1 1 1 \<rparr>"

definition ex_world :: "int \<Rightarrow> world" where
  "ex_world t =
     \<lparr> w_clock = (\<lambda>k. t + int k),
       w_account = ''0xme'',
       w_parseEther = (\<lambda>s. Inr 100),
       w_parseUnits = (\<lambda>s d. Inr 100),
       w_encode = ex_encode,
       w_estimateGas = (\<lambda>req. Inr 21000),
       w_sendTransaction = ex_send,
       w_waitForTransactionReceipt = ex_wait,
       w_confirm = (\<lambda>h. Inr ()),
       w_getBalance = (\<lambda>a. Inr 1000),
       w_getGasPrice = Inr 50,
       w_lens_getAmountOut = (\<lambda>tok a b. Inr (''0xrouter'', 200)),
       w_token_getDecimals = (\<lambda>tok. Inr 18),
       w_token_getBalance = (\<lambda>tok. Inr 1000),
       w_token_getAllowance = (\<lambda>tok spender. Inr 0),
       w_token_approve = (\<lambda>tok spender a. Inr ''0xapprove''),
       w_token_generatePermitSignature = (\<lambda>tok spender a d. Inr (27, ''0x01'', ''0x02'')) \<rparr>"

definition ex_sniperConfig :: SniperConfig where
  "ex_sniperConfig =
     \<lparr> sc_buyAmount = ''0.1'', sc_slippagePercent = 5, sc_gasMultiplier = Some (6 / 5),
       sc_maxGasPrice = None, sc_minBuyInterval = Some 1000, sc_tokenWhitelist = None,
       sc_tokenBlacklist = None, sc_tokenFilter = None, sc_autoBuy = Some True \<rparr>"

definition ex_bundlerConfig :: BundlerConfig where
  "ex_bundlerConfig =
     \<lparr> bc_defaultSlippagePercent = Some 5, bc_gasMultiplier = Some 1, bc_maxGasPrice = None,
       bc_waitForConfirmation = Some True \<rparr>"

definition ex_world_confirm_fails :: "int \<Rightarrow> world" where
  "ex_world_confirm_fails t =
     (ex_world t)\<lparr> w_confirm := (\<lambda>h. Inl (JsError ''HttpRequestError'' ''HTTP request failed.'')) \<rparr>"

definition ex_world_no_funds :: "int \<Rightarrow> world" where
  "ex_world_no_funds t = (ex_world t)\<lparr> w_getBalance := (\<lambda>a. Inr 7) \<rparr>"

definition ex_encode_deadline :: "router_call \<Rightarrow> js_thrown + string" where
  "ex_encode_deadline c =
     Inr (case c of
            BuyCall a \<Rightarrow>
              if buy_deadline a = 1700003600 then ''buy:1700003600'' else ''buy:other''
          | SellCall a \<Rightarrow>
              if sell_deadline a = 1700003600 then ''sell:1700003600'' else ''sell:other''
          | SellPermitCall a \<Rightarrow>
              if permit_deadline a = 42 then ''sellPermit:42'' else ''sellPermit:other'')"

definition ex_send_data :: "tx_request \<Rightarrow> js_thrown + string" where
  "ex_send_data req = Inr (tx_data req)"

definition ex_slowFilterConfig :: SniperConfig where
  "ex_slowFilterConfig = ex_sniperConfig\<lparr> sc_tokenFilter := Some (\<lambda>event. Inr (Inr True)) \<rparr>"

definition ex_arrived1 :: SniperBot where
  "ex_arrived1 =
     fst (handleCreateEvent_start (ex_world 1700000000000) (ex_create ''0xA'')
            (SniperBot_new ex_slowFilterConfig))"

definition ex_arrived2 :: SniperBot where
  "ex_arrived2 =
     fst (handleCreateEvent_start (ex_world 1700000000500) (ex_create ''0xB'') ex_arrived1)"

definition ex_filtered1 :: SniperBot where
  "ex_filtered1 =
     fst (handleCreateEvent_resume (ex_world 1700000000600) (ex_create ''0xA'') ex_arrived2)"

definition ex_filtered2 :: SniperBot where
  "ex_filtered2 =
     fst (handleCreateEvent_resume (ex_world 1700000001100) (ex_create ''0xB'') ex_filtered1)"

definition ex_traded :: SniperBot where
  "ex_traded =
     executeBuy_finish (\<lambda>x. x) (ex_world 1700000001100) (ex_create ''0xB'')
       (executeBuy_finish (\<lambda>x. x) (ex_world 1700000000600) (ex_create ''0xA'') ex_filtered2)"

section \<open>Slippage bounds\<close>

lemma bigint_div_nonneg: "0 \<le> a \<Longrightarrow> 0 < b \<Longrightarrow> bigint_div a b = a div b"
  by (cases "a = 0") (simp_all add: bigint_div_def)

lemma slippageBp_range:
  assumes "rounding_ok fl" and "0 \<le> p" and "p < 100"
  shows "0 \<le> \<lfloor>fl (p * 100)\<rfloor> \<and> \<lfloor>fl (p * 100)\<rfloor> \<le> 10000"
proof -
  from assms(1) have m: "mono fl" and z: "fl 0 = 0" and t: "fl 10000 = 10000"
    by (simp_all add: rounding_ok_def)
  from assms(2) have "fl 0 \<le> fl (p * 100)" by (intro monoD [OF m]) simp
  with z have lo: "0 \<le> fl (p * 100)" by simp
  from assms(3) have "fl (p * 100) \<le> fl 10000" by (intro monoD [OF m]) simp
  with t have hi: "fl (p * 100) \<le> 10000" by simp
  from lo have "0 \<le> \<lfloor>fl (p * 100)\<rfloor>" by simp
  moreover from hi have "\<lfloor>fl (p * 100)\<rfloor> \<le> 10000" by (simp add: floor_le_iff)
  ultimately show ?thesis by simp
qed

text \<open>
  C3. For a non-negative amount and a slippage percent in \<open>[0, 100)\<close>,
  \<open>calculateMinAmountOut\<close> returns a value at most the amount and
  \<open>calculateMaxAmountIn\<close> returns a value at least the amount; for a percent below 0 or
  at least 100 both throw an error instead of returning.
\<close>

theorem slippage_bounds:
  assumes "rounding_ok fl" and "0 \<le> amount"
  shows "(0 \<le> p \<and> p < 100 \<longrightarrow>
            (\<exists>lo hi. calculateMinAmountOut fl amount p = Inr lo \<and> lo \<le> amount
                   \<and> calculateMaxAmountIn fl amount p = Inr hi \<and> amount \<le> hi))
       \<and> (p < 0 \<or> 100 \<le> p \<longrightarrow>
            (\<exists>e. calculateMinAmountOut fl amount p = Inl e)
          \<and> (\<exists>e. calculateMaxAmountIn fl amount p = Inl e))"
proof (intro conjI impI)
  assume p: "0 \<le> p \<and> p < 100"
  define bp where "bp = \<lfloor>fl (p * 100)\<rfloor>"
  from slippageBp_range [OF assms(1)] p have bp: "0 \<le> bp" "bp \<le> 10000"
    by (simp_all add: bp_def)
  from assms(2) bp have n1: "0 \<le> amount * (10000 - bp)" by simp
  from assms(2) bp have n2: "0 \<le> amount * (10000 + bp)" by simp
  have "amount * (10000 - bp) \<le> amount * 10000"
    using assms(2) bp by (intro mult_left_mono) simp_all
  then have "amount * (10000 - bp) div 10000 \<le> amount * 10000 div 10000"
    by (rule zdiv_mono1) simp
  then have lo: "amount * (10000 - bp) div 10000 \<le> amount" by simp
  have "amount * 10000 \<le> amount * (10000 + bp)"
    using assms(2) bp by (intro mult_left_mono) simp_all
  then have "amount * 10000 div 10000 \<le> amount * (10000 + bp) div 10000"
    by (rule zdiv_mono1) simp
  then have hi: "amount \<le> amount * (10000 + bp) div 10000" by simp
  from p lo hi n1 n2
  show "\<exists>lo hi. calculateMinAmountOut fl amount p = Inr lo \<and> lo \<le> amount
                \<and> calculateMaxAmountIn fl amount p = Inr hi \<and> amount \<le> hi"
    by (simp add: calculateMinAmountOut_def calculateMaxAmountIn_def Let_def
          bigint_div_nonneg bp_def [symmetric])
next
  assume "p < 0 \<or> 100 \<le> p"
  then show "\<exists>e. calculateMinAmountOut fl amount p = Inl e"
    by (auto simp: calculateMinAmountOut_def)
next
  assume "p < 0 \<or> 100 \<le> p"
  then show "\<exists>e. calculateMaxAmountIn fl amount p = Inl e"
    by (auto simp: calculateMaxAmountIn_def)
qed

theorem slippage_bounds_witness:
  "rounding_ok (\<lambda>x. x) \<and> (0::int) \<le> 100
   \<and> calculateMinAmountOut (\<lambda>x. x) 100 5 = Inr 95
   \<and> calculateMaxAmountIn (\<lambda>x. x) 100 5 = Inr 105
   \<and> (\<exists>e. calculateMinAmountOut (\<lambda>x. x) 100 100 = Inl e)
   \<and> (\<exists>e. calculateMaxAmountIn (\<lambda>x. x) 100 (-1) = Inl e)"
proof -
  have r: "rounding_ok (\<lambda>x. x)" by (simp add: rounding_ok_def mono_def)
  have a: "(0::int) \<le> 100" by simp
  from slippage_bounds [OF r a, of 5] slippage_bounds [OF r a, of 100]
       slippage_bounds [OF r a, of "-1"] r
  show ?thesis
    by (simp add: calculateMinAmountOut_def calculateMaxAmountIn_def bigint_div_def)
qed

section \<open>Chronological order: the sort\<close>

lemma compareEvents_le: "compareEvents a b \<le> 0 \<longleftrightarrow> eventKey a \<le> eventKey b"
  by (auto simp: compareEvents_def eventKey_def)

lemma array_insert_insort: "array_insert compareEvents x ys = insort_key eventKey x ys"
  by (induction ys) (simp_all add: compareEvents_le)

lemma sortEvents_sort_key: "sortEventsChronologically xs = sort_key eventKey xs"
  by (induction xs)
     (simp_all add: sortEventsChronologically_def array_sort_def array_insert_insort)

lemma chrono_le_key: "chrono_le a b \<longleftrightarrow> eventKey a \<le> eventKey b"
  by (auto simp: chrono_le_def eventKey_def)

lemma sorted_wrt_chrono: "sorted_wrt chrono_le xs \<longleftrightarrow> sorted (map eventKey xs)"
  by (induction xs) (auto simp: chrono_le_key)

text \<open>
  C4. Sorting a list of events twice gives what sorting it once gives, and the sorted
  list is non-decreasing under the lexicographic key
  \<open>(blockNumber, transactionIndex, logIndex)\<close>.
\<close>

theorem sort_idempotent_nondecreasing:
  "sortEventsChronologically (sortEventsChronologically E) = sortEventsChronologically E
   \<and> sorted_wrt chrono_le (sortEventsChronologically E)"
  by (simp add: sortEvents_sort_key sorted_wrt_chrono sort_key_id_if_sorted)

text \<open>
  C10. \<open>sortEventsChronologically\<close> returns the reference it was given, the array behind
  that reference now holds the sorted contents, which are a permutation of the old
  contents, and no other array of the store changes.
\<close>

theorem sort_in_place_permutation:
  "fst (sortEventsChronologically_store r st) = r
   \<and> snd (sortEventsChronologically_store r st) r = sortEventsChronologically (st r)
   \<and> mset (snd (sortEventsChronologically_store r st) r) = mset (st r)
   \<and> (\<forall>q. q \<noteq> r \<longrightarrow> snd (sortEventsChronologically_store r st) q = st q)"
  by (simp add: sortEventsChronologically_store_def sortEventsChronologically_def [symmetric]
        sortEvents_sort_key)

lemma ex_store_sorted:
  "sortEventsChronologically (ex_store 0) = [ex_key 1 0 3, ex_key 1 1 0, ex_key 2 0 0]"
  by (simp add: ex_store_def sortEventsChronologically_def array_sort_def compareEvents_def
        ex_key_def)

theorem sort_in_place_permutation_witness:
  "(1::nat) \<noteq> 0
   \<and> fst (sortEventsChronologically_store 0 ex_store) = 0
   \<and> snd (sortEventsChronologically_store 0 ex_store) 0
       = [ex_key 1 0 3, ex_key 1 1 0, ex_key 2 0 0]
   \<and> snd (sortEventsChronologically_store 0 ex_store) 1 = [ex_key 9 0 0, ex_key 8 0 0]"
  using sort_in_place_permutation [of 0 ex_store]
  by (simp add: ex_store_sorted) (simp add: ex_store_def)

section \<open>Indexer: batching agrees with one query\<close>

lemma sort_key_append_sorted_mid:
  "sort_key f (A @ sort_key f B @ C) = sort_key f (A @ B @ C)"
proof (rule properties_for_sort_key)
  show "mset (sort_key f (A @ B @ C)) = mset (A @ sort_key f B @ C)" by simp
next
  fix k
  have "filter (\<lambda>x. f k = f x) (sort_key f (A @ B @ C)) = filter (\<lambda>x. f k = f x) (A @ B @ C)"
    using sort_key_stable [of f "f k" "A @ B @ C"] by (simp add: eq_commute)
  moreover have "filter (\<lambda>x. f k = f x) (sort_key f B) = filter (\<lambda>x. f k = f x) B"
    using sort_key_stable [of f "f k" B] by (simp add: eq_commute)
  ultimately show "filter (\<lambda>x. f k = f x) (sort_key f (A @ B @ C))
      = filter (\<lambda>x. f k = f x) (A @ sort_key f B @ C)" by simp
next
  show "sorted (map f (sort_key f (A @ B @ C)))" by simp
qed


lemma processLogs_loop_acc:
  "processLogs_loop et tf logs acc = acc @ processLogs_loop et tf logs []"
proof (induction logs arbitrary: acc)
  case Nil
  show ?case by simp
next
  case (Cons l logs)
  have a: "\<And>e. processLogs_loop et tf logs (acc @ [e]) = acc @ processLogs_loop et tf logs [e]"
    using Cons.IH [of "acc @ [e]" for e] Cons.IH [of "[e]" for e] by simp
  show ?case
    using Cons.IH [of acc] a by (simp split: option.splits)
qed

lemma processLogs_loop_append:
  "processLogs_loop et tf (xs @ ys) [] = processLogs_loop et tf xs [] @ processLogs_loop et tf ys []"
proof (induction xs)
  case Nil
  show ?case by simp
next
  case (Cons l xs)
  have a: "\<And>e zs. processLogs_loop et tf zs [e] = e # processLogs_loop et tf zs []"
    using processLogs_loop_acc [of et tf _ "[e]" for e] by simp
  show ?case using Cons.IH by (simp add: a split: option.splits)
qed

lemma getLogs_empty: "toBlock < fromBlock \<Longrightarrow> getLogs chain fromBlock toBlock = []"
  by (simp add: getLogs_def)

lemma getLogs_split:
  "a \<le> b \<Longrightarrow> b \<le> c \<Longrightarrow> getLogs chain a c = getLogs chain a b @ getLogs chain (b + 1) c"
  by (simp add: getLogs_def upto_split2 [of a b c])

lemma fetchAllEvents_loop_result:
  assumes bs: "1 \<le> batchSize"
  shows "\<exists>res. fetchAllEvents_loop chain target batchSize et tf cur acc = Some res
           \<and> sort_key eventKey res
             = sort_key eventKey (acc @ processLogs_loop et tf (getLogs chain cur target) [])"
proof (induction "nat (target + 1 - cur)" arbitrary: cur acc rule: less_induct)
  case less
  show ?case
  proof (cases "cur \<le> target")
    case False
    then show ?thesis
      by (subst fetchAllEvents_loop.simps) (simp add: getLogs_empty)
  next
    case True
    define toBlock where "toBlock = min (cur + batchSize - 1) target"
    define events where "events = fetchEvents chain cur toBlock et tf"
    have tb: "cur \<le> toBlock" "toBlock \<le> target"
      using bs True by (simp_all add: toBlock_def)
    have ev: "events = sort_key eventKey (processLogs_loop et tf (getLogs chain cur toBlock) [])"
      by (simp add: events_def fetchEvents_def processLogs_def sortEvents_sort_key)
    show ?thesis
    proof (cases "toBlock \<ge> target")
      case True
      with tb have eq: "toBlock = target" by simp
      have "fetchAllEvents_loop chain target batchSize et tf cur acc = Some (acc @ events)"
        using \<open>cur \<le> target\<close> True
        by (subst fetchAllEvents_loop.simps)
           (simp add: Let_def toBlock_def [symmetric] events_def [symmetric])
      moreover have "sort_key eventKey (acc @ events)
          = sort_key eventKey (acc @ processLogs_loop et tf (getLogs chain cur target) [])"
        using sort_key_append_sorted_mid [of eventKey acc _ "[]"] by (simp add: ev eq)
      ultimately show ?thesis by simp
    next
      case False
      have step: "fetchAllEvents_loop chain target batchSize et tf cur acc
          = fetchAllEvents_loop chain target batchSize et tf (toBlock + 1) (acc @ events)"
        using \<open>cur \<le> target\<close> False
        by (subst fetchAllEvents_loop.simps)
           (simp add: Let_def toBlock_def [symmetric] events_def [symmetric])
      have "nat (target + 1 - (toBlock + 1)) < nat (target + 1 - cur)"
        using tb False by simp
      from less [OF this, of "acc @ events"]
      obtain res where res:
        "fetchAllEvents_loop chain target batchSize et tf (toBlock + 1) (acc @ events) = Some res"
        "sort_key eventKey res = sort_key eventKey
           ((acc @ events) @ processLogs_loop et tf (getLogs chain (toBlock + 1) target) [])"
        by blast
      have "sort_key eventKey res = sort_key eventKey
          (acc @ processLogs_loop et tf (getLogs chain cur toBlock) []
               @ processLogs_loop et tf (getLogs chain (toBlock + 1) target) [])"
        using res(2) sort_key_append_sorted_mid [of eventKey acc] by (simp add: ev)
      also have "\<dots> = sort_key eventKey
          (acc @ processLogs_loop et tf (getLogs chain cur target) [])"
        using getLogs_split [OF tb, of chain] by (simp add: processLogs_loop_append)
      finally show ?thesis using step res(1) by simp
    qed
  qed
qed

text \<open>
  C2. For every start block, every batch size of at least 1 and a chain head read once,
  \<open>fetchAllEvents\<close> returns, and returns the events of a single \<open>fetchEvents\<close> over
  \<open>[startBlock, head]\<close>, in the same order.
\<close>

theorem fetchAllEvents_eq_fetchEvents:
  assumes "1 \<le> batchSize"
  shows "fetchAllEvents chain head startBlock batchSize eventTypes tokenFilter
         = Some (fetchEvents chain startBlock head eventTypes tokenFilter)"
proof -
  from fetchAllEvents_loop_result [OF assms, of chain head eventTypes tokenFilter startBlock "[]"]
  obtain res where res:
    "fetchAllEvents_loop chain head batchSize eventTypes tokenFilter startBlock [] = Some res"
    "sort_key eventKey res
       = sort_key eventKey (processLogs_loop eventTypes tokenFilter (getLogs chain startBlock head) [])"
    by auto
  then show ?thesis
    by (simp add: fetchAllEvents_def fetchEvents_def processLogs_def sortEvents_sort_key)
qed

theorem fetchAllEvents_eq_fetchEvents_witness:
  "(1::int) \<le> 2
   \<and> fetchAllEvents ex_chain 3 0 2 None None = Some (fetchEvents ex_chain 0 3 None None)"
  using fetchAllEvents_eq_fetchEvents [of 2 ex_chain 3 0 None None] by simp

section \<open>Gas estimation: what a failed estimate throws\<close>

text \<open>
  C1 (as amended). When the network estimation call fails, each estimator throws: not the
  error it caught, but a new \<open>Error\<close> whose message is the operation's prefix followed by
  the message of the caught error (\<open>Unknown error\<close> for a thrown value that is no
  \<open>Error\<close>).
\<close>

theorem gas_estimation_failure_rewrapped:
  "(\<forall>callData.
      encode (BuyCall \<lparr> buy_amountOutMin = amountOutMin, buy_token = tok, buy_to = to,
                        buy_deadline = deadline \<rparr>) = Inr callData
      \<and> estimate \<lparr> req_to = router, req_account = to, req_value = Some amountIn,
                    req_data = callData \<rparr> = Inl error
      \<longrightarrow> estimateBuyGas encode estimate router tok amountIn amountOutMin to deadline
          = Inl (new_Error (''Gas estimation failed for buy operation: ''
                            @ message_or_unknown error)))
   \<and> (\<forall>callData.
      encode (SellCall \<lparr> sell_amountIn = amountIn, sell_amountOutMin = amountOutMin,
                         sell_token = tok, sell_to = to, sell_deadline = deadline \<rparr>)
        = Inr callData
      \<and> estimate \<lparr> req_to = router, req_account = to, req_value = None,
                    req_data = callData \<rparr> = Inl error
      \<longrightarrow> estimateSellGas encode estimate router tok amountIn amountOutMin to deadline
          = Inl (new_Error (''Gas estimation failed for sell operation: ''
                            @ message_or_unknown error)))
   \<and> (\<forall>callData.
      encode (SellPermitCall
                \<lparr> permit_amountIn = amountIn, permit_amountOutMin = amountOutMin,
                  permit_amountAllowance = amountAllowance, permit_token = tok,
                  permit_to = to, permit_deadline = deadline, permit_v = v, permit_r = r,
                  permit_s = s \<rparr>) = Inr callData
      \<and> estimate \<lparr> req_to = router, req_account = to, req_value = None,
                    req_data = callData \<rparr> = Inl error
      \<longrightarrow> estimateSellPermitGas encode estimate router tok amountIn amountOutMin
            amountAllowance to deadline v r s
          = Inl (new_Error (''Gas estimation failed for sell permit operation: ''
                            @ message_or_unknown error)))"
  by (simp add: estimateBuyGas_def estimateSellGas_def estimateSellPermitGas_def)

theorem gas_estimation_failure_rewrapped_witness:
  "estimateBuyGas ex_encode ex_estimate_reverts ''0xrouter'' ''0xtoken'' 5 1 ''0xme'' 99
     = Inl (JsError ''Error'' ''Gas estimation failed for buy operation: execution reverted'')
   \<and> estimateSellGas ex_encode ex_estimate_reverts ''0xrouter'' ''0xtoken'' 5 1 ''0xme'' 99
     = Inl (JsError ''Error'' ''Gas estimation failed for sell operation: execution reverted'')
   \<and> estimateSellPermitGas ex_encode ex_estimate_reverts ''0xrouter'' ''0xtoken'' 5 1 5
        ''0xme'' 99 27 ''0x01'' ''0x02''
     = Inl (JsError ''Error''
              ''Gas estimation failed for sell permit operation: execution reverted'')"
  using gas_estimation_failure_rewrapped
          [where encode = ex_encode and estimate = ex_estimate_reverts and error = ex_revert
             and router = "''0xrouter''" and tok = "''0xtoken''" and amountIn = 5
             and amountOutMin = 1 and amountAllowance = 5 and to = "''0xme''" and deadline = 99
             and v = 27 and r = "''0x01''" and s = "''0x02''"]
  by (simp add: ex_encode_def ex_estimate_reverts_def ex_revert_def new_Error_def
        message_or_unknown_def)

theorem gas_estimation_unchanged_counterexample:
  "ex_estimate_reverts \<lparr> req_to = ''0xrouter'', req_account = ''0xme'', req_value = Some 5,
                         req_data = ''0xbuy'' \<rparr> = Inl ex_revert
   \<and> estimateBuyGas ex_encode ex_estimate_reverts ''0xrouter'' ''0xtoken'' 5 1 ''0xme'' 99
       \<noteq> Inl ex_revert"
  by (simp add: estimateBuyGas_def ex_encode_def ex_estimate_reverts_def ex_revert_def
        new_Error_def)

section \<open>Trade executor: the deadline\<close>

lemma rethrow_id: "(case r of Inl thrown \<Rightarrow> Inl thrown | Inr v \<Rightarrow> Inr v) = r"
  by (cases r) simp_all

text \<open>
  C7. With the deadline left unset, \<open>buy\<close> and \<open>sell\<close> encode a call whose deadline is the
  current time in seconds plus 3600 and send that call. \<open>sellPermit\<close> reads no clock: given
  a deadline it encodes and sends a call with exactly that deadline, and given none it
  throws before anything is encoded or sent.
\<close>

theorem deadline_default_buy_sell_only:
  "(bp_deadline bp = None \<longrightarrow>
      buy encode sendTransaction waitForTransactionReceipt nowMs bp router
      = (case encode (BuyCall \<lparr> buy_amountOutMin = bp_amountOutMin bp, buy_token = bp_token bp,
                                buy_to = bp_to bp, buy_deadline = nowMs div 1000 + 3600 \<rparr>) of
           Inl thrown \<Rightarrow> Inl thrown
         | Inr callData \<Rightarrow>
             (case sendTransaction
                     \<lparr> tx_to = router, tx_data = callData, tx_value = Some (bp_amountIn bp),
                       tx_gas = bp_gasLimit bp, tx_gasPrice = bp_gasPrice bp,
                       tx_nonce = bp_nonce bp \<rparr> of
                Inl thrown \<Rightarrow> Inl thrown
              | Inr tx \<Rightarrow> waitForTransactionReceipt tx)))
   \<and> (sp_deadline sp = None \<longrightarrow>
      sell encode sendTransaction waitForTransactionReceipt nowMs sp router
      = (case encode (SellCall \<lparr> sell_amountIn = sp_amountIn sp,
                                 sell_amountOutMin = sp_amountOutMin sp,
                                 sell_token = sp_token sp, sell_to = sp_to sp,
                                 sell_deadline = nowMs div 1000 + 3600 \<rparr>) of
           Inl thrown \<Rightarrow> Inl thrown
         | Inr callData \<Rightarrow>
             (case sendTransaction
                     \<lparr> tx_to = router, tx_data = callData, tx_value = None,
                       tx_gas = sp_gasLimit sp, tx_gasPrice = sp_gasPrice sp,
                       tx_nonce = sp_nonce sp \<rparr> of
                Inl thrown \<Rightarrow> Inl thrown
              | Inr tx \<Rightarrow> waitForTransactionReceipt tx)))
   \<and> (\<forall>d. sp_deadline pp = Some d \<longrightarrow>
      sellPermit encode sendTransaction waitForTransactionReceipt pp router
      = (case encode (SellPermitCall
                        \<lparr> permit_amountIn = sp_amountIn pp,
                          permit_amountOutMin = sp_amountOutMin pp,
                          permit_amountAllowance = sp_amountAllowance pp,
                          permit_token = sp_token pp, permit_to = sp_to pp,
                          permit_deadline = d, permit_v = sp_v pp, permit_r = sp_r pp,
                          permit_s = sp_s pp \<rparr>) of
           Inl thrown \<Rightarrow> Inl thrown
         | Inr callData \<Rightarrow>
             (case sendTransaction
                     \<lparr> tx_to = router, tx_data = callData, tx_value = None,
                       tx_gas = sp_gasLimit pp, tx_gasPrice = sp_gasPrice pp,
                       tx_nonce = sp_nonce pp \<rparr> of
                Inl thrown \<Rightarrow> Inl thrown
              | Inr tx \<Rightarrow> waitForTransactionReceipt tx)))
   \<and> (sp_deadline pp = None \<longrightarrow>
      sellPermit encode sendTransaction waitForTransactionReceipt pp router
      = Inl (JsError ''TypeError'' ''Cannot convert undefined to a BigInt''))"
proof (intro conjI impI allI)
  assume "bp_deadline bp = None"
  then show "buy encode sendTransaction waitForTransactionReceipt nowMs bp router
      = (case encode (BuyCall \<lparr> buy_amountOutMin = bp_amountOutMin bp, buy_token = bp_token bp,
                                buy_to = bp_to bp, buy_deadline = nowMs div 1000 + 3600 \<rparr>) of
           Inl thrown \<Rightarrow> Inl thrown
         | Inr callData \<Rightarrow>
             (case sendTransaction
                     \<lparr> tx_to = router, tx_data = callData, tx_value = Some (bp_amountIn bp),
                       tx_gas = bp_gasLimit bp, tx_gasPrice = bp_gasPrice bp,
                       tx_nonce = bp_nonce bp \<rparr> of
                Inl thrown \<Rightarrow> Inl thrown
              | Inr tx \<Rightarrow> waitForTransactionReceipt tx))"
    unfolding buy_def buyDataParams_def deadline_or_default_def rethrow_id by simp
next
  assume "sp_deadline sp = None"
  then show "sell encode sendTransaction waitForTransactionReceipt nowMs sp router
      = (case encode (SellCall \<lparr> sell_amountIn = sp_amountIn sp,
                                 sell_amountOutMin = sp_amountOutMin sp,
                                 sell_token = sp_token sp, sell_to = sp_to sp,
                                 sell_deadline = nowMs div 1000 + 3600 \<rparr>) of
           Inl thrown \<Rightarrow> Inl thrown
         | Inr callData \<Rightarrow>
             (case sendTransaction
                     \<lparr> tx_to = router, tx_data = callData, tx_value = None,
                       tx_gas = sp_gasLimit sp, tx_gasPrice = sp_gasPrice sp,
                       tx_nonce = sp_nonce sp \<rparr> of
                Inl thrown \<Rightarrow> Inl thrown
              | Inr tx \<Rightarrow> waitForTransactionReceipt tx))"
    unfolding sell_def sellDataParams_def deadline_or_default_def rethrow_id by simp
next
  fix d
  assume "sp_deadline pp = Some d"
  then show "sellPermit encode sendTransaction waitForTransactionReceipt pp router
      = (case encode (SellPermitCall
                        \<lparr> permit_amountIn = sp_amountIn pp,
                          permit_amountOutMin = sp_amountOutMin pp,
                          permit_amountAllowance = sp_amountAllowance pp,
                          permit_token = sp_token pp, permit_to = sp_to pp,
                          permit_deadline = d, permit_v = sp_v pp, permit_r = sp_r pp,
                          permit_s = sp_s pp \<rparr>) of
           Inl thrown \<Rightarrow> Inl thrown
         | Inr callData \<Rightarrow>
             (case sendTransaction
                     \<lparr> tx_to = router, tx_data = callData, tx_value = None,
                       tx_gas = sp_gasLimit pp, tx_gasPrice = sp_gasPrice pp,
                       tx_nonce = sp_nonce pp \<rparr> of
                Inl thrown \<Rightarrow> Inl thrown
              | Inr tx \<Rightarrow> waitForTransactionReceipt tx))"
    unfolding sellPermit_def sellPermitDataParams_def rethrow_id by simp
next
  assume "sp_deadline pp = None"
  then show "sellPermit encode sendTransaction waitForTransactionReceipt pp router
      = Inl (JsError ''TypeError'' ''Cannot convert undefined to a BigInt'')"
    by (simp add: sellPermit_def sellPermitDataParams_def)
qed


theorem deadline_default_buy_sell_only_witness:
  "bp_deadline ex_buyParams = None \<and> sp_deadline ex_sellParams = None
   \<and> sp_deadline (ex_sellPermitParams (Some 42)) = Some 42
   \<and> sp_deadline (ex_sellPermitParams None) = None
   \<and> buy ex_encode_deadline ex_send_data ex_wait 1700000000123 ex_buyParams ''0xrouter''
       = Inr ''buy:1700003600''
   \<and> sell ex_encode_deadline ex_send_data ex_wait 1700000000123 ex_sellParams ''0xrouter''
       = Inr ''sell:1700003600''
   \<and> sellPermit ex_encode_deadline ex_send_data ex_wait (ex_sellPermitParams (Some 42))
         ''0xrouter'' = Inr ''sellPermit:42''
   \<and> sellPermit ex_encode_deadline ex_send_data ex_wait (ex_sellPermitParams None)
         ''0xrouter'' = Inl (JsError ''TypeError'' ''Cannot convert undefined to a BigInt'')"
  using deadline_default_buy_sell_only
          [where bp = ex_buyParams and sp = ex_sellParams and nowMs = 1700000000123
             and pp = "ex_sellPermitParams (Some 42)" and encode = ex_encode_deadline
             and sendTransaction = ex_send_data and waitForTransactionReceipt = ex_wait
             and router = "''0xrouter''"]
        deadline_default_buy_sell_only
          [where bp = ex_buyParams and sp = ex_sellParams and nowMs = 1700000000123
             and pp = "ex_sellPermitParams None" and encode = ex_encode_deadline
             and sendTransaction = ex_send_data and waitForTransactionReceipt = ex_wait
             and router = "''0xrouter''"]
  by (simp add: ex_buyParams_def ex_sellParams_def ex_sellPermitParams_def ex_send_data_def
        ex_wait_def ex_encode_deadline_def)

section \<open>Pool discovery: skipped tokens and failed lookups\<close>

lemma findPools_loop_acc:
  "findPoolsForTokens_loop g w f fee ts acc = acc @ findPoolsForTokens_loop g w f fee ts []"
proof (induction ts arbitrary: acc)
  case Nil
  show ?case by simp
next
  case (Cons t ts)
  have a: "\<And>p. findPoolsForTokens_loop g w f fee ts (acc @ [p])
             = acc @ findPoolsForTokens_loop g w f fee ts [p]"
    using Cons.IH [of "acc @ [p]" for p] Cons.IH [of "[p]" for p] by simp
  show ?case
    using Cons.IH [of acc] a by (simp split: prod.splits sum.splits)
qed

lemma findPools_Cons:
  "findPoolsForTokens g w f fee (t # ts)
   = findPoolsForTokens g w f fee [t] @ findPoolsForTokens g w f fee ts"
  using findPools_loop_acc [of g w f fee ts "[p]" for p]
  by (simp add: findPoolsForTokens_def split: prod.splits sum.splits)

lemma findPools_append:
  "findPoolsForTokens g w f fee (xs @ ys)
   = findPoolsForTokens g w f fee xs @ findPoolsForTokens g w f fee ys"
proof (induction xs)
  case Nil
  show ?case by (simp add: findPoolsForTokens_def)
next
  case (Cons x xs)
  show ?case
    using findPools_Cons [of g w f fee x "xs @ ys"] findPools_Cons [of g w f fee x xs] Cons.IH
    by simp
qed

lemma findPools_single_none:
  assumes "toLowerCase t = toLowerCase w
           \<or> factoryLookup g w f fee t = Inr zeroAddress
           \<or> (\<exists>e. factoryLookup g w f fee t = Inl e)"
  shows "findPoolsForTokens g w f fee [t] = []"
  using assms
  by (auto simp: findPoolsForTokens_def factoryLookup_def split: prod.splits sum.splits)

text \<open>
  C8. In a list of requested tokens, a token equal to the wrapped-native address (up to
  letter case) adds no pool; a token whose factory lookup answers the zero address adds
  no pool; a token whose lookup throws adds no pool; and in each case the tokens before
  and after it are processed as they would be without it.
\<close>

theorem pool_discovery_skips_and_continues:
  "(toLowerCase t = toLowerCase w \<longrightarrow>
      findPoolsForTokens g w f fee (before @ t # after)
      = findPoolsForTokens g w f fee before @ findPoolsForTokens g w f fee after)
   \<and> (factoryLookup g w f fee t = Inr zeroAddress \<longrightarrow>
      findPoolsForTokens g w f fee (before @ t # after)
      = findPoolsForTokens g w f fee before @ findPoolsForTokens g w f fee after)
   \<and> ((\<exists>e. factoryLookup g w f fee t = Inl e) \<longrightarrow>
      findPoolsForTokens g w f fee (before @ t # after)
      = findPoolsForTokens g w f fee before @ findPoolsForTokens g w f fee after)"
  using findPools_append [of g w f fee before "t # after"] findPools_Cons [of g w f fee t after]
        findPools_single_none [of t w g f fee]
  by auto


lemma ex_lower: "toLowerCase ''0xc0'' = toLowerCase ''0xC0''" by code_simp

lemma ex_lookups:
  "factoryLookup ex_getPool ''0xC0'' ''0xfac'' 3000 ''0x00'' = Inr zeroAddress"
  "factoryLookup ex_getPool ''0xC0'' ''0xfac'' 3000 ''0xdead''
     = Inl (JsError ''ContractFunctionExecutionError'' ''call failed'')"
  by code_simp+

lemma ex_pools:
  "findPoolsForTokens ex_getPool ''0xC0'' ''0xfac'' 3000 [''0xA1''] = [''0xpool0xA10xC0'']"
  "findPoolsForTokens ex_getPool ''0xC0'' ''0xfac'' 3000 [''0xd2''] = [''0xpool0xC00xd2'']"
  by code_simp+

theorem pool_discovery_skips_and_continues_witness:
  "toLowerCase ''0xc0'' = toLowerCase ''0xC0''
   \<and> factoryLookup ex_getPool ''0xC0'' ''0xfac'' 3000 ''0x00'' = Inr zeroAddress
   \<and> (\<exists>e. factoryLookup ex_getPool ''0xC0'' ''0xfac'' 3000 ''0xdead'' = Inl e)
   \<and> findPoolsForTokens ex_getPool ''0xC0'' ''0xfac'' 3000 ([''0xA1''] @ ''0xc0'' # [''0xd2''])
       = [''0xpool0xA10xC0'', ''0xpool0xC00xd2'']
   \<and> findPoolsForTokens ex_getPool ''0xC0'' ''0xfac'' 3000 ([''0xA1''] @ ''0x00'' # [''0xd2''])
       = [''0xpool0xA10xC0'', ''0xpool0xC00xd2'']
   \<and> findPoolsForTokens ex_getPool ''0xC0'' ''0xfac'' 3000 ([''0xA1''] @ ''0xdead'' # [''0xd2''])
       = [''0xpool0xA10xC0'', ''0xpool0xC00xd2'']"
  using pool_discovery_skips_and_continues
          [where g = ex_getPool and w = "''0xC0''" and f = "''0xfac''" and fee = 3000
             and before = "[''0xA1'']" and after = "[''0xd2'']" and t = "''0xc0''"]
        pool_discovery_skips_and_continues
          [where g = ex_getPool and w = "''0xC0''" and f = "''0xfac''" and fee = 3000
             and before = "[''0xA1'']" and after = "[''0xd2'']" and t = "''0x00''"]
        pool_discovery_skips_and_continues
          [where g = ex_getPool and w = "''0xC0''" and f = "''0xfac''" and fee = 3000
             and before = "[''0xA1'']" and after = "[''0xd2'']" and t = "''0xdead''"]
        ex_lower ex_lookups ex_pools
  by simp

section \<open>Streams: stop on a stream that is not running\<close>

text \<open>
  C9. On a stream that is not running, \<open>stop\<close> returns at once: the state is unchanged,
  no unwatch function is called, and a listener registered before is still registered.
  This holds for the bonding curve stream and for the DEX stream.
\<close>

theorem stop_when_idle_is_noop:
  "(\<not> cs_isRunning s \<longrightarrow> curve_stop call s = (s, []))
   \<and> (\<not> ds_isRunning d \<longrightarrow> dex_stop d = (d, []))
   \<and> (\<not> cs_isRunning s \<longrightarrow>
        cs_listeners (fst (curve_stop call (curve_onEvent ident cb s))) ident = Some cb)
   \<and> (\<not> ds_isRunning d \<longrightarrow>
        ds_listeners (fst (dex_stop (dex_onSwap ident cb' d))) ident = Some cb')"
  by (simp add: curve_stop_def dex_stop_def curve_onEvent_def dex_onSwap_def)

theorem stop_when_idle_is_noop_witness:
  "\<not> cs_isRunning ex_stream \<and> \<not> ds_isRunning ex_dex_stream
   \<and> curve_stop ex_call ex_stream = (ex_stream, [])
   \<and> dex_stop ex_dex_stream = (ex_dex_stream, [])
   \<and> cs_listeners (fst (curve_stop ex_call ex_stream)) ''k3x9'' = Some 7
   \<and> ds_listeners (fst (dex_stop ex_dex_stream)) ''p0q1'' = Some 8
   \<and> cs_listeners (fst (curve_stop ex_call (curve_start (Inr 1) ex_stream))) ''k3x9'' = None"
  using stop_when_idle_is_noop
          [where s = ex_stream and d = ex_dex_stream and call = ex_call]
  by (simp add: ex_stream_def ex_dex_stream_def curve_Stream_new_def dex_Stream_new_def
        curve_onEvent_def dex_onSwap_def curve_start_def curve_stop_def ex_call_def
        curve_subscribeEvents_def curve_removeAllListeners_def)

section \<open>Sniper bot: the rate limit and suspended handlers\<close>

lemma executeBuy_start_effect:
  "sb_config (executeBuy_start w sb) = sb_config sb
   \<and> sb_lastBuyTime (executeBuy_start w sb) = w_clock w 1
   \<and> totalBuys (sb_stats (executeBuy_start w sb)) = totalBuys (sb_stats sb) + 1
   \<and> skippedBuys (sb_stats (executeBuy_start w sb)) = skippedBuys (sb_stats sb)
   \<and> totalEvents (sb_stats (executeBuy_start w sb)) = totalEvents (sb_stats sb)"
  by (simp add: executeBuy_start_def Let_def)

lemma executeBuy_finish_effect:
  "sb_config (executeBuy_finish fl w e sb) = sb_config sb
   \<and> sb_lastBuyTime (executeBuy_finish fl w e sb) = sb_lastBuyTime sb
   \<and> totalBuys (sb_stats (executeBuy_finish fl w e sb)) = totalBuys (sb_stats sb)
   \<and> skippedBuys (sb_stats (executeBuy_finish fl w e sb)) = skippedBuys (sb_stats sb)
   \<and> totalEvents (sb_stats (executeBuy_finish fl w e sb)) = totalEvents (sb_stats sb)"
  by (simp add: executeBuy_finish_def split: sum.splits)

lemma skipBuy_effect:
  "sb_config (skipBuy sb) = sb_config sb
   \<and> sb_lastBuyTime (skipBuy sb) = sb_lastBuyTime sb
   \<and> totalBuys (sb_stats (skipBuy sb)) = totalBuys (sb_stats sb)
   \<and> skippedBuys (sb_stats (skipBuy sb)) = skippedBuys (sb_stats sb) + 1
   \<and> totalEvents (sb_stats (skipBuy sb)) = totalEvents (sb_stats sb)"
  by (simp add: skipBuy_def)

lemma counted_effect:
  "sb_config (counted sb) = sb_config sb
   \<and> sb_lastBuyTime (counted sb) = sb_lastBuyTime sb
   \<and> totalBuys (sb_stats (counted sb)) = totalBuys (sb_stats sb)
   \<and> skippedBuys (sb_stats (counted sb)) = skippedBuys (sb_stats sb)
   \<and> totalEvents (sb_stats (counted sb)) = totalEvents (sb_stats sb) + 1"
  by (simp add: counted_def)

lemma start_rate_limited:
  assumes "sc_minBuyInterval (sb_config sb) = Some 1000"
      and "w_clock w 0 - sb_lastBuyTime sb < 1000"
  shows "handleCreateEvent_start w e sb = (skipBuy (counted sb), Finished)"
  using assms by (simp add: handleCreateEvent_start_def counted_def Let_def)

lemma start_passing_no_filter:
  assumes "passes_filters (sb_config sb) e" and "sc_autoBuy (sb_config sb) = Some True"
      and "sc_minBuyInterval (sb_config sb) = Some 1000"
      and "1000 \<le> w_clock w 0 - sb_lastBuyTime sb"
      and "sc_tokenFilter (sb_config sb) = None"
  shows "handleCreateEvent_start w e sb = (executeBuy_start w (counted sb), AwaitingTrade)"
  using assms
  by (auto simp: handleCreateEvent_start_def passes_filters_def autoBuy_step_def counted_def
        Let_def split: option.splits)

lemma start_passing_filter:
  assumes "passes_filters (sb_config sb) e"
      and "sc_minBuyInterval (sb_config sb) = Some 1000"
      and "1000 \<le> w_clock w 0 - sb_lastBuyTime sb"
      and "sc_tokenFilter (sb_config sb) = Some p"
  shows "handleCreateEvent_start w e sb = (counted sb, AwaitingFilter)"
  using assms
  by (auto simp: handleCreateEvent_start_def passes_filters_def counted_def
        Let_def split: option.splits)

lemma resume_passing:
  assumes "passes_filters (sb_config sb) e" and "sc_autoBuy (sb_config sb) = Some True"
      and "sc_tokenFilter (sb_config sb) = Some p"
  shows "handleCreateEvent_resume w e sb = (executeBuy_start w sb, AwaitingTrade)"
  using assms
  by (auto simp: handleCreateEvent_resume_def passes_filters_def autoBuy_step_def
        split: option.splits sum.splits)

lemma uninterrupted_passing:
  assumes "passes_filters (sb_config sb) e" and "sc_autoBuy (sb_config sb) = Some True"
      and "sc_minBuyInterval (sb_config sb) = Some 1000"
      and "1000 \<le> w_clock w 0 - sb_lastBuyTime sb"
  shows "handleCreateEvent_uninterrupted fl w e sb
         = executeBuy_finish fl w e (executeBuy_start w (counted sb))"
proof (cases "sc_tokenFilter (sb_config sb)")
  case None
  from start_passing_no_filter [OF assms this]
  show ?thesis by (simp add: handleCreateEvent_uninterrupted_def)
next
  case (Some p)
  have c: "sb_config (counted sb) = sb_config sb" using counted_effect by simp
  from start_passing_filter [OF assms(1,3,4) Some]
       resume_passing [of "counted sb" e p w] assms(1,2) Some c
  show ?thesis by (simp add: handleCreateEvent_uninterrupted_def)
qed

lemma uninterrupted_rate_limited:
  assumes "sc_minBuyInterval (sb_config sb) = Some 1000"
      and "w_clock w 0 - sb_lastBuyTime sb < 1000"
  shows "handleCreateEvent_uninterrupted fl w e sb = skipBuy (counted sb)"
  using start_rate_limited [OF assms] by (simp add: handleCreateEvent_uninterrupted_def)

text \<open>
  When the first handler is not interrupted, the two events give one buy attempt and one
  skip.
\<close>

lemma uninterrupted_handlers_one_buy_one_skip:
  assumes "sc_minBuyInterval (sb_config sb) = Some 1000"
      and "sc_autoBuy (sb_config sb) = Some True"
      and "passes_filters (sb_config sb) e1"
      and "passes_filters (sb_config sb) e2"
      and "1000 \<le> w_clock w1 0 - sb_lastBuyTime sb"
      and "w_clock w1 0 \<le> w_clock w1 1"
      and "w_clock w2 0 = w_clock w1 0 + 500"
  shows "totalBuys (sb_stats (handleCreateEvent_uninterrupted fl w2 e2
                               (handleCreateEvent_uninterrupted fl w1 e1 sb)))
           = totalBuys (sb_stats sb) + 1
       \<and> skippedBuys (sb_stats (handleCreateEvent_uninterrupted fl w2 e2
                                  (handleCreateEvent_uninterrupted fl w1 e1 sb)))
           = skippedBuys (sb_stats sb) + 1"
proof -
  define s1 where "s1 = handleCreateEvent_uninterrupted fl w1 e1 sb"
  have h1: "s1 = executeBuy_finish fl w1 e1 (executeBuy_start w1 (counted sb))"
    unfolding s1_def using assms(3,2,1,5) by (rule uninterrupted_passing)
  note f = executeBuy_finish_effect [of fl w1 e1 "executeBuy_start w1 (counted sb)"]
  note b = executeBuy_start_effect [of w1 "counted sb"]
  note c = counted_effect [of sb]
  have c1: "sb_config s1 = sb_config sb" using f b c by (simp add: h1)
  have l1: "sb_lastBuyTime s1 = w_clock w1 1" using f b by (simp add: h1)
  have t1: "totalBuys (sb_stats s1) = totalBuys (sb_stats sb) + 1" using f b c by (simp add: h1)
  have k1: "skippedBuys (sb_stats s1) = skippedBuys (sb_stats sb)" using f b c by (simp add: h1)
  have "w_clock w2 0 - sb_lastBuyTime s1 < 1000" using assms(6,7) l1 by simp
  with c1 assms(1)
  have h2: "handleCreateEvent_uninterrupted fl w2 e2 s1 = skipBuy (counted s1)"
    by (intro uninterrupted_rate_limited) simp_all
  show ?thesis
    unfolding s1_def [symmetric] h2
    using t1 k1 skipBuy_effect [of "counted s1"] counted_effect [of s1] by simp
qed

text \<open>
  With no custom filter the first handler is at \<open>executeBuy\<close> before it is first
  suspended, and the second event is skipped even while the first trade is pending.
\<close>

lemma no_custom_filter_one_buy_one_skip:
  assumes "sc_minBuyInterval (sb_config sb) = Some 1000"
      and "sc_autoBuy (sb_config sb) = Some True"
      and "sc_tokenFilter (sb_config sb) = None"
      and "passes_filters (sb_config sb) e1"
      and "1000 \<le> w_clock w1 0 - sb_lastBuyTime sb"
      and "w_clock w1 0 \<le> w_clock w1 1"
      and "w_clock w2 0 = w_clock w1 0 + 500"
  shows "snd (handleCreateEvent_start w1 e1 sb) = AwaitingTrade
       \<and> snd (handleCreateEvent_start w2 e2 (fst (handleCreateEvent_start w1 e1 sb))) = Finished
       \<and> totalBuys (sb_stats (executeBuy_finish fl w3 e1
            (fst (handleCreateEvent_start w2 e2 (fst (handleCreateEvent_start w1 e1 sb))))))
           = totalBuys (sb_stats sb) + 1
       \<and> skippedBuys (sb_stats (executeBuy_finish fl w3 e1
            (fst (handleCreateEvent_start w2 e2 (fst (handleCreateEvent_start w1 e1 sb))))))
           = skippedBuys (sb_stats sb) + 1"
proof -
  define s1 where "s1 = executeBuy_start w1 (counted sb)"
  have h1: "handleCreateEvent_start w1 e1 sb = (s1, AwaitingTrade)"
    unfolding s1_def using assms(4,2,1,5,3) by (rule start_passing_no_filter)
  note b = executeBuy_start_effect [of w1 "counted sb"]
  note c = counted_effect [of sb]
  have c1: "sb_config s1 = sb_config sb" using b c by (simp add: s1_def)
  have l1: "sb_lastBuyTime s1 = w_clock w1 1" using b by (simp add: s1_def)
  have t1: "totalBuys (sb_stats s1) = totalBuys (sb_stats sb) + 1" using b c by (simp add: s1_def)
  have k1: "skippedBuys (sb_stats s1) = skippedBuys (sb_stats sb)" using b c by (simp add: s1_def)
  have "w_clock w2 0 - sb_lastBuyTime s1 < 1000" using assms(6,7) l1 by simp
  with c1 assms(1)
  have h2: "handleCreateEvent_start w2 e2 s1 = (skipBuy (counted s1), Finished)"
    by (intro start_rate_limited) simp_all
  show ?thesis
    using h1 h2 t1 k1 skipBuy_effect [of "counted s1"] counted_effect [of s1]
          executeBuy_finish_effect [of fl w3 e1 "skipBuy (counted s1)"]
    by simp
qed

text \<open>
  C5. The claim: with \<open>minBuyInterval = 1000\<close> and auto-buy on, two Create events that
  pass all filters and arrive 500 ms apart give one buy attempt and one skip. The code on
  a bot whose custom filter takes 600 ms to answer \<open>true\<close>: the second event arrives while
  the handler of the first is suspended at the filter, \<open>lastBuyTime\<close> is still 0, so the
  second passes the rate limit too; both handlers then go on to \<open>executeBuy\<close>, which
  tests no rate limit. Two buy attempts, 500 ms apart on the bot's clock, and no skip.
\<close>

theorem sniper_slow_filter_buys_twice:
  "handleCreateEvent_start (ex_world 1700000000000) (ex_create ''0xA'')
     (SniperBot_new ex_slowFilterConfig) = (ex_arrived1, AwaitingFilter)
   \<and> handleCreateEvent_start (ex_world 1700000000500) (ex_create ''0xB'') ex_arrived1
       = (ex_arrived2, AwaitingFilter)
   \<and> handleCreateEvent_resume (ex_world 1700000000600) (ex_create ''0xA'') ex_arrived2
       = (ex_filtered1, AwaitingTrade)
   \<and> handleCreateEvent_resume (ex_world 1700000001100) (ex_create ''0xB'') ex_filtered1
       = (ex_filtered2, AwaitingTrade)
   \<and> sb_lastBuyTime ex_filtered1 = 1700000000601
   \<and> sb_lastBuyTime ex_filtered2 = 1700000001101
   \<and> totalBuys (sb_stats ex_traded) = 2
   \<and> skippedBuys (sb_stats ex_traded) = 0
   \<and> totalEvents (sb_stats ex_traded) = 2"
proof -
  have a1: "handleCreateEvent_start (ex_world 1700000000000) (ex_create ''0xA'')
              (SniperBot_new ex_slowFilterConfig)
            = (counted (SniperBot_new ex_slowFilterConfig), AwaitingFilter)"
    by (simp add: handleCreateEvent_start_def SniperBot_new_def ex_slowFilterConfig_def
          ex_sniperConfig_def ex_world_def counted_def Let_def)
  then have e1: "ex_arrived1 = counted (SniperBot_new ex_slowFilterConfig)"
    by (simp add: ex_arrived1_def)
  have a2: "handleCreateEvent_start (ex_world 1700000000500) (ex_create ''0xB'') ex_arrived1
            = (counted ex_arrived1, AwaitingFilter)"
    unfolding e1
    by (simp add: handleCreateEvent_start_def SniperBot_new_def ex_slowFilterConfig_def
          ex_sniperConfig_def ex_world_def counted_def Let_def)
  then have e2: "ex_arrived2 = counted ex_arrived1" by (simp add: ex_arrived2_def)
  have cfg: "sb_config ex_arrived2 = ex_slowFilterConfig"
    unfolding e2 e1 by (simp add: counted_def SniperBot_new_def)
  have a3: "handleCreateEvent_resume (ex_world 1700000000600) (ex_create ''0xA'') ex_arrived2
            = (executeBuy_start (ex_world 1700000000600) ex_arrived2, AwaitingTrade)"
    by (simp add: handleCreateEvent_resume_def cfg autoBuy_step_def ex_slowFilterConfig_def
          ex_sniperConfig_def)
  then have e3: "ex_filtered1 = executeBuy_start (ex_world 1700000000600) ex_arrived2"
    by (simp add: ex_filtered1_def)
  have cfg3: "sb_config ex_filtered1 = ex_slowFilterConfig"
    unfolding e3 using executeBuy_start_effect cfg by simp
  have a4: "handleCreateEvent_resume (ex_world 1700000001100) (ex_create ''0xB'') ex_filtered1
            = (executeBuy_start (ex_world 1700000001100) ex_filtered1, AwaitingTrade)"
    by (simp add: handleCreateEvent_resume_def cfg3 autoBuy_step_def ex_slowFilterConfig_def
          ex_sniperConfig_def)
  then have e4: "ex_filtered2 = executeBuy_start (ex_world 1700000001100) ex_filtered1"
    by (simp add: ex_filtered2_def)
  have z: "totalBuys (sb_stats ex_arrived2) = 0" "skippedBuys (sb_stats ex_arrived2) = 0"
          "totalEvents (sb_stats ex_arrived2) = 2"
    unfolding e2 e1 by (simp_all add: counted_def SniperBot_new_def)
  have l3: "sb_lastBuyTime ex_filtered1 = 1700000000601"
    unfolding e3 using executeBuy_start_effect [of "ex_world 1700000000600" ex_arrived2]
    by (simp add: ex_world_def)
  have l4: "sb_lastBuyTime ex_filtered2 = 1700000001101"
    unfolding e4 using executeBuy_start_effect [of "ex_world 1700000001100" ex_filtered1]
    by (simp add: ex_world_def)
  have s4: "totalBuys (sb_stats ex_filtered2) = 2" "skippedBuys (sb_stats ex_filtered2) = 0"
           "totalEvents (sb_stats ex_filtered2) = 2"
    unfolding e4 e3
    using executeBuy_start_effect [of "ex_world 1700000001100"
            "executeBuy_start (ex_world 1700000000600) ex_arrived2"]
          executeBuy_start_effect [of "ex_world 1700000000600" ex_arrived2] z
    by simp_all
  have t: "totalBuys (sb_stats ex_traded) = 2" "skippedBuys (sb_stats ex_traded) = 0"
          "totalEvents (sb_stats ex_traded) = 2"
    unfolding ex_traded_def using s4 by (simp_all add: executeBuy_finish_effect)
  show ?thesis
    using a1 a2 a3 a4 l3 l4 t
    by (simp add: e1 [symmetric] e2 [symmetric] e3 [symmetric] e4 [symmetric])
qed

section \<open>Bundler bot: one result for each operation\<close>

lemma ex_buy_ok:
  "BundlerBot_executeBuy (\<lambda>x. x) (ex_world_confirm_fails 1700000000000) ex_bundlerConfig
     (OpBuy ''0xtoken'' ''0.1'' None)
   = success_result (OpBuy ''0xtoken'' ''0.1'' None) ''0xhash'' 200"
  by (simp add: BundlerBot_executeBuy_def ex_world_confirm_fails_def ex_world_def
        ex_bundlerConfig_def await_def slippage_of_def getAmountOut_def
        calculateMinAmountOut_def getGasPrice_def finalGasPrice_def estimateBuyGas_def
        ex_encode_def buy_def buyDataParams_def ex_send_def ex_wait_def Let_def)

lemma success_result_fields:
  "res_success (success_result operation h x) = True"
  "res_txHash (success_result operation h x) = Some h"
  by (simp_all add: success_result_def)

lemma failed_result_fields:
  "res_success (failed_result operation m) = False"
  "res_txHash (failed_result operation m) = None"
  by (simp_all add: failed_result_def)

text \<open>
  C6. The claim: \<open>execute\<close> returns one result for each input operation, so that the
  results counted successful plus those counted failed are as many as the operations.
  The code on a bundle of one buy, with confirmation on, whose trade succeeds and whose
  receipt wait in \<open>execute\<close> then fails: the \<open>try\<close> has already pushed the success when
  the \<open>catch\<close> pushes a failure, and the one operation has two results.
\<close>

theorem bundler_records_operation_twice:
  "execute (\<lambda>x. x) (\<lambda>i. ex_world_confirm_fails 1700000000000) ex_bundlerConfig
     [OpBuy ''0xtoken'' ''0.1'' None]
   = [success_result (OpBuy ''0xtoken'' ''0.1'' None) ''0xhash'' 200,
      failed_result (OpBuy ''0xtoken'' ''0.1'' None) ''HTTP request failed.'']
   \<and> length (execute (\<lambda>x. x) (\<lambda>i. ex_world_confirm_fails 1700000000000) ex_bundlerConfig
               [OpBuy ''0xtoken'' ''0.1'' None]) = 2
   \<and> length [OpBuy ''0xtoken'' ''0.1'' None] = 1
   \<and> successful (execute (\<lambda>x. x) (\<lambda>i. ex_world_confirm_fails 1700000000000)
                    ex_bundlerConfig [OpBuy ''0xtoken'' ''0.1'' None])
       + failed (execute (\<lambda>x. x) (\<lambda>i. ex_world_confirm_fails 1700000000000)
                    ex_bundlerConfig [OpBuy ''0xtoken'' ''0.1'' None]) = 2"
proof -
  have c: "w_confirm (ex_world_confirm_fails 1700000000000) ''0xhash''
           = Inl (JsError ''HttpRequestError'' ''HTTP request failed.'')"
    by (simp add: ex_world_confirm_fails_def)
  have w: "bc_waitForConfirmation ex_bundlerConfig = Some True"
    by (simp add: ex_bundlerConfig_def)
  have e: "execute (\<lambda>x. x) (\<lambda>i. ex_world_confirm_fails 1700000000000) ex_bundlerConfig
             [OpBuy ''0xtoken'' ''0.1'' None]
           = [success_result (OpBuy ''0xtoken'' ''0.1'' None) ''0xhash'' 200,
              failed_result (OpBuy ''0xtoken'' ''0.1'' None) ''HTTP request failed.'']"
    by (simp add: execute_def ex_buy_ok c w Let_def success_result_fields error_text_def)
  show ?thesis
    unfolding e by (simp add: successful_def failed_def success_result_fields failed_result_fields)
qed


text \<open>
  Apart from that case the loop does what the claim says: no operation is left out,
  whatever fails, and when no receipt wait of \<open>execute\<close> fails there is exactly one
  result for each operation, in order.
\<close>

lemma yields_for_await: "(\<And>v. yields_for operation (k v)) \<Longrightarrow> yields_for operation (await r k)"
  by (cases r) (simp_all add: await_def yields_for_def)

lemma yields_for_if:
  "yields_for operation a \<Longrightarrow> yields_for operation b \<Longrightarrow> yields_for operation (if c then a else b)"
  by simp

lemma yields_for_results:
  "yields_for operation (Inr (failed_result operation m))"
  "yields_for operation (Inr (success_result operation h x))"
  by (simp_all add: yields_for_def failed_result_def success_result_def)

lemma yields_for_catch:
  "yields_for operation r \<Longrightarrow>
   res_operation (case r of Inr result \<Rightarrow> result
                  | Inl error \<Rightarrow> failed_result operation (error_text error)) = operation"
  by (cases r) (simp_all add: yields_for_def failed_result_def)

lemma executeBuy_operation:
  "res_operation (BundlerBot_executeBuy fl w cfg operation) = operation"
  unfolding BundlerBot_executeBuy_def Let_def
  by (intro yields_for_catch yields_for_await yields_for_if yields_for_results)

lemma executeSell_operation:
  "res_operation (BundlerBot_executeSell fl w cfg operation) = operation"
  unfolding BundlerBot_executeSell_def Let_def
  by (intro yields_for_catch yields_for_await yields_for_if yields_for_results)

lemma executeSellPermit_operation:
  "res_operation (BundlerBot_executeSellPermit fl w cfg operation) = operation"
  unfolding BundlerBot_executeSellPermit_def Let_def
  by (intro yields_for_catch yields_for_await yields_for_if yields_for_results)


lemma run_operation:
  "res_operation
     (case operation of
        OpBuy t a s \<Rightarrow> BundlerBot_executeBuy fl w cfg operation
      | OpSell t a s \<Rightarrow> BundlerBot_executeSell fl w cfg operation
      | OpSellPermit t a s \<Rightarrow> BundlerBot_executeSellPermit fl w cfg operation) = operation"
  by (cases operation)
     (simp_all add: executeBuy_operation executeSell_operation executeSellPermit_operation)

lemma execute_loop_length_ge:
  "length results + length operations
     \<le> length (execute_loop fl worlds cfg operations i results)"
proof (induction operations arbitrary: i results)
  case Nil
  show ?case by simp
next
  case (Cons operation operations)
  have a: "\<And>r. Suc (length results + length operations)
             \<le> length (execute_loop fl worlds cfg operations (i + 1) (results @ [r]))"
    using Cons.IH [of "results @ [r]" "i + 1" for r] by simp
  have b: "Suc (length results + length operations)
             \<le> length (execute_loop fl worlds cfg operations (i + 1) (results @ [r] @ [r']))"
    for r r'
  proof -
    have "Suc (Suc (length results + length operations))
            \<le> length (execute_loop fl worlds cfg operations (i + 1) (results @ [r] @ [r']))"
      using Cons.IH [of "results @ [r] @ [r']" "i + 1"] by simp
    then show ?thesis by (rule Suc_leD)
  qed
  show ?case
    using a b by (simp add: Let_def split: sum.splits)
qed

lemma execute_loop_confirmed:
  assumes "\<And>j h. \<exists>u. w_confirm (worlds j) h = Inr u"
  shows "map res_operation (execute_loop fl worlds cfg operations i results)
         = map res_operation results @ operations"
proof (induction operations arbitrary: i results)
  case Nil
  show ?case by simp
next
  case (Cons operation operations)
  have c: "\<And>h. \<not> (\<exists>e. w_confirm (worlds i) h = Inl e)"
    using assms [of i] by (metis sum.distinct(1))
  show ?case
    using Cons.IH [of "i + 1" "results @ [r]" for r] c run_operation [where operation = operation and fl = fl and w = "worlds i" and cfg = cfg]
    by (simp add: Let_def split: sum.splits)
qed

lemma bundle_all_recorded_when_confirmed:
  assumes "\<And>j h. \<exists>u. w_confirm (worlds j) h = Inr u"
  shows "map res_operation (execute fl worlds cfg operations) = operations
       \<and> length (execute fl worlds cfg operations) = length operations
       \<and> successful (execute fl worlds cfg operations)
           + failed (execute fl worlds cfg operations) = length operations"
proof -
  have m: "map res_operation (execute fl worlds cfg operations) = operations"
    using execute_loop_confirmed
            [OF assms, where fl = fl and cfg = cfg and operations = operations and i = 0
               and results = "[]"]
    by (simp add: execute_def)
  then have l: "length (execute fl worlds cfg operations) = length operations"
    by (metis length_map)
  have "successful (execute fl worlds cfg operations)
           + failed (execute fl worlds cfg operations)
        = length (execute fl worlds cfg operations)"
    unfolding successful_def failed_def by (rule sum_length_filter_compl)
  with m l show ?thesis by simp
qed

lemma bundle_never_aborts:
  "length operations \<le> length (execute fl worlds cfg operations)"
  using execute_loop_length_ge
          [where results = "[]" and operations = operations and fl = fl and worlds = worlds
             and cfg = cfg and i = 0]
  by (simp add: execute_def)

end
